theory Spec2Isabelle
  imports Main
begin

section \<open>Values of the program\<close>

text \<open>
  The program (\<^verbatim>\<open>src/main.py\<close>) sends one GET request to the crawling API, decodes the
  JSON body and renders it as Markdown into \<^verbatim>\<open>Output/<domain>/crawling_results.md\<close>.

  The text that reaches the output file (the strings of the response, the rendered
  Markdown, the content of a file) is a Python \<^verbatim>\<open>str\<close> modelled as the list of its code
  points, so that a lone surrogate, which \<^verbatim>\<open>response.json()\<close> returns for \<^verbatim>\<open>\ud800\<close> and
  which UTF-8 cannot encode, is a value of the model; \<open>text_of\<close> embeds a literal, and the
  accented letter of the heading \<^verbatim>\<open>Textos extraidos\<close> is the code point \<^verbatim>\<open>0xED\<close>. A file
  holds the text that was written to it. The strings of the command line, the parts of
  a path and the keys of a dict (which the program only compares with its three field
  names) are of type \<^typ>\<open>string\<close>, with characters that are code points below 256. What
  the program prints on the console is not modelled.
\<close>

type_synonym pystr = "nat list"

definition text_of :: "string \<Rightarrow> pystr" where
  "text_of s = map of_char s"

definition surrogate :: "nat \<Rightarrow> bool" where
  "surrogate c = (0xD800 \<le> c \<and> c \<le> 0xDFFF)"

definition utf8_encodable :: "pystr \<Rightarrow> bool" where
  \<comment> \<open>whether \<^verbatim>\<open>s.encode("utf-8")\<close> succeeds: the codec refuses surrogate code points\<close>
  "utf8_encodable s = list_all (\<lambda>c. \<not> surrogate c) s"

definition line_break :: nat where
  "line_break = of_char (CHR ''\<newline>'')"

typedecl pyfloat
  \<comment> \<open>a Python float; the program never inspects one\<close>

datatype json =
    JNull
  | JBool bool
  | JInt int
  | JFloat pyfloat
  | JStr pystr
  | JArr "json list"
  | JObj "(string \<times> json) list"
  \<comment> \<open>the object \<^verbatim>\<open>response.json()\<close> returns; a dict is the list of its items in
      insertion order, looked up with \<^const>\<open>map_of\<close>\<close>

datatype error =
    SystemExit nat
  | AttributeError
  | TypeError
  | ValueError
  | FileExistsError
  | FileNotFoundError
  | NotADirectoryError
  | IsADirectoryError
  | UnicodeEncodeError

section \<open>The Markdown renderer\<close>

definition dict_get :: "json \<Rightarrow> string \<Rightarrow> json \<Rightarrow> error + json" where
  \<comment> \<open>\<^verbatim>\<open>data.get(key, default)\<close>; only a dict has the method\<close>
  "dict_get data key dflt =
     (case data of
        JObj items \<Rightarrow> Inr (case map_of items key of None \<Rightarrow> dflt | Some v \<Rightarrow> v)
      | _ \<Rightarrow> Inl AttributeError)"

fun py_iter :: "json \<Rightarrow> error + json list" where
  \<comment> \<open>the elements a \<^verbatim>\<open>for\<close> loop visits: a list gives its elements, a string its
      characters, a dict its keys; anything else is not iterable\<close>
  "py_iter (JArr xs) = Inr xs"
| "py_iter (JStr s) = Inr (map (\<lambda>c. JStr [c]) s)"
| "py_iter (JObj items) = Inr (map (\<lambda>kv. JStr (text_of (fst kv))) items)"
| "py_iter _ = Inl TypeError"

definition format_value :: "(json \<Rightarrow> pystr) \<Rightarrow> json \<Rightarrow> pystr" where
  \<comment> \<open>a replacement field \<^verbatim>\<open>{x}\<close> of an f-string: a string is inserted as it is; for any
      other value Python inserts \<^verbatim>\<open>str(x)\<close>, which is the parameter \<open>py_str\<close>\<close>
  "format_value py_str x = (case x of JStr s \<Rightarrow> s | _ \<Rightarrow> py_str x)"

definition for_each :: "error + json \<Rightarrow> (pystr \<Rightarrow> json \<Rightarrow> pystr) \<Rightarrow> pystr \<Rightarrow> error + pystr" where
  \<comment> \<open>\<^verbatim>\<open>for x in <iterable>: md_content += ...\<close>, the body given as the new content\<close>
  "for_each iterable body md =
     (case iterable of
        Inl e \<Rightarrow> Inl e
      | Inr v \<Rightarrow> (case py_iter v of Inl e \<Rightarrow> Inl e | Inr xs \<Rightarrow> Inr (foldl body md xs)))"

definition title_heading :: pystr where
  "title_heading = text_of ''# Resultado do Crawling\<newline>\<newline>''"

definition sub_heading :: "string \<Rightarrow> pystr" where
  "sub_heading data_type = text_of (''## Tipo de dados: '' @ data_type @ ''\<newline>\<newline>'')"

definition md_content :: "(json \<Rightarrow> pystr) \<Rightarrow> json \<Rightarrow> string \<Rightarrow> error + pystr" where
  \<comment> \<open>lines 53 to 69 of \<^verbatim>\<open>save_as_markdown\<close>: the text that is written\<close>
  "md_content py_str data data_type =
     (let md0 = title_heading;
          md1 = md0 @ sub_heading data_type
      in if data_type = ''links'' then
           for_each (dict_get data ''links'' (JArr []))
             (\<lambda>md link. md @ text_of ''- ['' @ format_value py_str link @ text_of '']('' @ format_value py_str link @ text_of '')\<newline>'')
             (md1 @ text_of ''### Links encontrados:\<newline>\<newline>'')
         else if data_type = ''text'' then
           for_each (dict_get data ''texts'' (JArr []))
             (\<lambda>md text. md @ format_value py_str text @ text_of ''\<newline>\<newline>---\<newline>\<newline>'')
             (md1 @ text_of (''### Textos extra'' @ [CHR 0xED] @ ''dos:\<newline>\<newline>''))
         else if data_type = ''images'' then
           for_each (dict_get data ''images'' (JArr []))
             (\<lambda>md image. md @ text_of ''!['' @ format_value py_str image @ text_of '']('' @ format_value py_str image @ text_of '')\<newline>\<newline>'')
             (md1 @ text_of ''### Imagens encontradas:\<newline>\<newline>'')
         else Inr md1)"

section \<open>Paths and the file system\<close>

text \<open>
  A \<^verbatim>\<open>pathlib\<close> path (POSIX flavour) is its root (empty for a relative path) and its
  parts. The file system maps a path to the node found there; paths are compared as
  written (\<^verbatim>\<open>..\<close> and symbolic links are not resolved), the current directory and the
  roots are directories, and permissions and size limits are not modelled.
\<close>

datatype path = Path (root: string) (parts: "string list")

fun split_on :: "'a \<Rightarrow> 'a list \<Rightarrow> 'a list list" where
  \<comment> \<open>\<^verbatim>\<open>s.split(sep)\<close>\<close>
  "split_on sep [] = [[]]"
| "split_on sep (c # cs) =
     (if c = sep then [] # split_on sep cs
      else (case split_on sep cs of [] \<Rightarrow> [[c]] | w # ws \<Rightarrow> (c # w) # ws))"

definition path_root :: "string \<Rightarrow> string" where
  \<comment> \<open>\<^verbatim>\<open>posixpath.splitroot\<close>: exactly two leading slashes are kept, any other number is one\<close>
  "path_root s =
     (if take 1 s \<noteq> ''/'' then []
      else if take 1 (drop 1 s) \<noteq> ''/'' \<or> take 1 (drop 2 s) = ''/'' then ''/''
      else ''//'')"

definition path_parts :: "string \<Rightarrow> string list" where
  "path_parts s = filter (\<lambda>x. x \<noteq> [] \<and> x \<noteq> ''.'') (split_on (CHR ''/'') s)"

definition path_of :: "string \<Rightarrow> path" where
  \<comment> \<open>\<^verbatim>\<open>Path(s)\<close>\<close>
  "path_of s = Path (path_root s) (path_parts s)"

definition path_div :: "path \<Rightarrow> string \<Rightarrow> path" where
  \<comment> \<open>\<^verbatim>\<open>p / s\<close>: an absolute segment replaces the path, a relative one is appended\<close>
  "path_div p s =
     (if path_root s \<noteq> [] then path_of s else Path (root p) (parts p @ path_parts s))"

definition parent :: "path \<Rightarrow> path" where
  "parent p = Path (root p) (butlast (parts p))"

datatype node = Dir | File pystr

type_synonym fs = "path \<Rightarrow> node option"

definition node_at :: "fs \<Rightarrow> path \<Rightarrow> node option" where
  "node_at fs p = (if parts p = [] then Some Dir else fs p)"

definition has_null :: "path \<Rightarrow> bool" where
  \<comment> \<open>the system calls refuse a path with an embedded null character\<close>
  "has_null p = list_ex (\<lambda>s. CHR 0x00 \<in> set s) (parts p)"

definition is_dir :: "fs \<Rightarrow> path \<Rightarrow> bool" where
  "is_dir fs p = (\<not> has_null p \<and> node_at fs p = Some Dir)"

definition os_mkdir :: "path \<Rightarrow> fs \<Rightarrow> error + fs" where
  "os_mkdir p fs =
     (if has_null p then Inl ValueError
      else case node_at fs p of
        Some _ \<Rightarrow> Inl FileExistsError
      | None \<Rightarrow>
          (case node_at fs (parent p) of
             None \<Rightarrow> Inl FileNotFoundError
           | Some (File _) \<Rightarrow> Inl NotADirectoryError
           | Some Dir \<Rightarrow> Inr (fs(p \<mapsto> Dir))))"

definition mkdir_no_parents :: "path \<Rightarrow> fs \<Rightarrow> error + fs" where
  \<comment> \<open>\<^verbatim>\<open>p.mkdir(parents=False, exist_ok=True)\<close>\<close>
  "mkdir_no_parents p fs =
     (case os_mkdir p fs of
        Inr fs' \<Rightarrow> Inr fs'
      | Inl FileNotFoundError \<Rightarrow> Inl FileNotFoundError
      | Inl e \<Rightarrow> if is_dir fs p then Inr fs else Inl e)"

function mkdir :: "path \<Rightarrow> fs \<Rightarrow> error + fs" where
  \<comment> \<open>\<^verbatim>\<open>p.mkdir(parents=True, exist_ok=True)\<close>\<close>
  "mkdir p fs =
     (case os_mkdir p fs of
        Inr fs' \<Rightarrow> Inr fs'
      | Inl FileNotFoundError \<Rightarrow>
          if parent p = p then Inl FileNotFoundError
          else (case mkdir (parent p) fs of
                  Inl e \<Rightarrow> Inl e
                | Inr fs' \<Rightarrow> mkdir_no_parents p fs')
      | Inl e \<Rightarrow> if is_dir fs p then Inr fs else Inl e)"
  by pat_completeness auto
termination
proof (relation "measure (\<lambda>(p, fs). length (parts p))")
  show "wf (measure (\<lambda>(p, fs). length (parts p)))" by simp
next
  fix p :: path and fs :: fs
  assume "parent p \<noteq> p"
  then have "parts p \<noteq> []" by (cases p) (auto simp: parent_def)
  then show "((parent p, fs), (p, fs)) \<in> measure (\<lambda>(p, fs). length (parts p))"
    by (simp add: parent_def)
qed

declare mkdir.simps [simp del]

definition write_text :: "path \<Rightarrow> pystr \<Rightarrow> fs \<Rightarrow> error option \<times> fs" where
  \<comment> \<open>\<^verbatim>\<open>p.write_text(data, encoding="utf-8")\<close>: the exception raised, if any, and the file
      system left. Opening the file for writing creates or truncates it; the text is
      then encoded as a whole, and when that fails nothing has been written\<close>
  "write_text p data fs =
     (if has_null p then (Some ValueError, fs)
      else case node_at fs p of
        Some Dir \<Rightarrow> (Some IsADirectoryError, fs)
      | _ \<Rightarrow>
          (case node_at fs (parent p) of
             None \<Rightarrow> (Some FileNotFoundError, fs)
           | Some (File _) \<Rightarrow> (Some NotADirectoryError, fs)
           | Some Dir \<Rightarrow>
               if utf8_encodable data then (None, fs(p \<mapsto> File data))
               else (Some UnicodeEncodeError, fs(p \<mapsto> File []))))"

definition save_as_markdown ::
  "(json \<Rightarrow> pystr) \<Rightarrow> json \<Rightarrow> path \<Rightarrow> string \<Rightarrow> fs \<Rightarrow> error option \<times> fs" where
  \<comment> \<open>the exception that leaves the function, if any, and the file system left\<close>
  "save_as_markdown py_str data output_dir data_type fs =
     (case md_content py_str data data_type of
        Inl e \<Rightarrow> (Some e, fs)
      | Inr md \<Rightarrow>
          (let output_file = path_div output_dir ''crawling_results.md''
           in write_text output_file md fs))"

section \<open>The network location of a URL\<close>

text \<open>
  \<^verbatim>\<open>urlparse(url).netloc\<close>, following \<^verbatim>\<open>urllib.parse.urlsplit\<close> of CPython 3.12: leading
  control characters and spaces are stripped, tabs and line breaks are removed, a scheme is
  split off, and after \<^verbatim>\<open>//\<close> the network location runs up to the first of \<^verbatim>\<open>/ ? #\<close>.
  An unbalanced bracket raises \<^verbatim>\<open>ValueError\<close>, and so does a bracketed host that is no
  IPv6 or IPvFuture address: that check is the parameter \<open>valid_bracketed_host\<close>. The
  NFKC check of the network location cannot fail for code points below 256.
\<close>

definition ascii_letters :: string where
  "ascii_letters = ''abcdefghijklmnopqrstuvwxyzABCDEFGHIJKLMNOPQRSTUVWXYZ''"

definition scheme_chars :: string where
  "scheme_chars = ''abcdefghijklmnopqrstuvwxyzABCDEFGHIJKLMNOPQRSTUVWXYZ0123456789+-.''"

definition c0_control_or_space :: "char \<Rightarrow> bool" where
  "c0_control_or_space c = ((of_char c :: nat) \<le> 32)"

definition unsafe_url_bytes_to_remove :: string where
  "unsafe_url_bytes_to_remove = [CHR 0x09, CHR 0x0D, CHR 0x0A]"

definition split_scheme :: "string \<Rightarrow> string" where
  \<comment> \<open>the URL after its scheme, when \<^verbatim>\<open>url[:i]\<close> before the first colon is a scheme\<close>
  "split_scheme url =
     (let pre = takeWhile (\<lambda>c. c \<noteq> CHR '':'') url
      in if CHR '':'' \<in> set url \<and> pre \<noteq> [] \<and> hd url \<in> set ascii_letters
            \<and> list_all (\<lambda>c. c \<in> set scheme_chars) pre
         then drop (length pre + 1) url
         else url)"

definition splitnetloc :: "string \<Rightarrow> string" where
  \<comment> \<open>\<^verbatim>\<open>_splitnetloc(url, 2)[0]\<close>\<close>
  "splitnetloc url = takeWhile (\<lambda>c. c \<notin> set ''/?#'') (drop 2 url)"

definition bracketed_host :: "string \<Rightarrow> string" where
  \<comment> \<open>\<^verbatim>\<open>netloc.partition('[')[2].partition(']')[0]\<close>\<close>
  "bracketed_host netloc =
     takeWhile (\<lambda>c. c \<noteq> CHR '']'') (drop 1 (dropWhile (\<lambda>c. c \<noteq> CHR ''['') netloc))"

definition urlparse_netloc :: "(string \<Rightarrow> bool) \<Rightarrow> string \<Rightarrow> error + string" where
  "urlparse_netloc valid_bracketed_host url0 =
     (let url1 = dropWhile c0_control_or_space url0;
          url2 = filter (\<lambda>c. c \<notin> set unsafe_url_bytes_to_remove) url1;
          url3 = split_scheme url2
      in if take 2 url3 = ''//'' then
           (let netloc = splitnetloc url3
            in if (CHR ''['' \<in> set netloc \<and> CHR '']'' \<notin> set netloc)
                  \<or> (CHR '']'' \<in> set netloc \<and> CHR ''['' \<notin> set netloc)
               then Inl ValueError
               else if CHR ''['' \<in> set netloc \<and> CHR '']'' \<in> set netloc
                       \<and> \<not> valid_bracketed_host (bracketed_host netloc)
               then Inl ValueError
               else Inr netloc)
         else Inr [])"

section \<open>The request dispatcher\<close>

datatype pval = PStr string | PInt int

datatype request = Get string "(string \<times> pval) list"
  \<comment> \<open>\<^verbatim>\<open>requests.get(url, params=params)\<close>: the address and the query parameters, in the
      order of the dict\<close>

datatype http_outcome =
    RequestException
  | Response nat "json option"
  \<comment> \<open>what the network does with a request: \<^verbatim>\<open>requests.get\<close> raises (connection error,
      timeout, too many redirects), or a response arrives with its status code and its
      body decoded as JSON (\<open>None\<close> when the body is not JSON)\<close>

definition firecrawl_api_url :: string where
  "firecrawl_api_url = ''https://api.firecrawl.com/crawl''"

definition raise_for_status :: "nat \<Rightarrow> bool" where
  \<comment> \<open>whether \<^verbatim>\<open>response.raise_for_status()\<close> raises \<^verbatim>\<open>HTTPError\<close>\<close>
  "raise_for_status status_code =
     ((400 \<le> status_code \<and> status_code < 500) \<or> (500 \<le> status_code \<and> status_code < 600))"

definition crawl_site ::
  "(request \<Rightarrow> http_outcome) \<Rightarrow> string \<Rightarrow> int \<Rightarrow> string \<Rightarrow> int \<Rightarrow> request \<times> (error + json)" where
  \<comment> \<open>the request that was sent, and the decoded body or the exception that leaves the
      function; \<^verbatim>\<open>response.json()\<close> raises a \<^verbatim>\<open>RequestException\<close> on a body that is not
      JSON (requests 2.27 and later)\<close>
  "crawl_site http url depth data_type request_limit =
     (let params = [(''url'', PStr url), (''depth'', PInt depth),
                    (''dataType'', PStr data_type), (''limit'', PInt request_limit)];
          req = Get firecrawl_api_url params
      in (req,
          case http req of
            RequestException \<Rightarrow> Inl (SystemExit 1)
          | Response status_code body \<Rightarrow>
              if raise_for_status status_code then Inl (SystemExit 1)
              else (case body of None \<Rightarrow> Inl (SystemExit 1) | Some result \<Rightarrow> Inr result)))"

section \<open>The entry point\<close>

record args =
  arg_url :: string
  arg_depth :: int
  arg_dataType :: string
  arg_requestLimit :: int

record world =
  http :: "request \<Rightarrow> http_outcome"
  py_str :: "json \<Rightarrow> pystr"
  valid_bracketed_host :: "string \<Rightarrow> bool"

record run =
  raised :: "error option"
  files :: fs
  sent :: "request list"

definition exit_status :: "error option \<Rightarrow> nat" where
  \<comment> \<open>the exit status of the interpreter: 0 when \<^verbatim>\<open>main()\<close> returns, the argument of
      \<^verbatim>\<open>sys.exit\<close>, and 1 for an exception nobody catches\<close>
  "exit_status r = (case r of None \<Rightarrow> 0 | Some (SystemExit n) \<Rightarrow> n | Some _ \<Rightarrow> 1)"

definition output_dir_of :: "(string \<Rightarrow> bool) \<Rightarrow> string \<Rightarrow> error + path" where
  \<comment> \<open>lines 106 and 107 of \<^verbatim>\<open>main\<close>\<close>
  "output_dir_of valid url =
     (case urlparse_netloc valid url of
        Inl e \<Rightarrow> Inl e
      | Inr domain \<Rightarrow> Inr (path_div (path_of ''Output'') domain))"

definition main :: "world \<Rightarrow> args \<Rightarrow> fs \<Rightarrow> run" where
  "main w a fs =
     (case output_dir_of (valid_bracketed_host w) (arg_url a) of
        Inl e \<Rightarrow> \<lparr>raised = Some e, files = fs, sent = []\<rparr>
      | Inr output_dir \<Rightarrow>
          (case mkdir output_dir fs of
             Inl e \<Rightarrow> \<lparr>raised = Some e, files = fs, sent = []\<rparr>
           | Inr fs1 \<Rightarrow>
               (case crawl_site (http w) (arg_url a) (arg_depth a) (arg_dataType a) (arg_requestLimit a) of
                  (req, Inl e) \<Rightarrow> \<lparr>raised = Some e, files = fs1, sent = [req]\<rparr>
                | (req, Inr result) \<Rightarrow>
                    (case save_as_markdown (py_str w) result output_dir (arg_dataType a) fs1 of
                       (exn, fs2) \<Rightarrow> \<lparr>raised = exn, files = fs2, sent = [req]\<rparr>))))"

section \<open>Concrete inputs\<close>

text \<open>The inputs at which the theorems below are evaluated.\<close>

definition py_str_example :: "json \<Rightarrow> pystr" where
  "py_str_example v = text_of ''<value>''"

definition any_bracketed_host :: "string \<Rightarrow> bool" where
  "any_bracketed_host h = True"

definition empty_fs :: fs where
  "empty_fs p = None"

definition example_fs :: fs where
  \<comment> \<open>a file system in which the output directory of \<^verbatim>\<open>a.com\<close> exists\<close>
  "example_fs = empty_fs(Path [] [''Output''] \<mapsto> Dir, Path [] [''Output'', ''a.com''] \<mapsto> Dir)"

definition stale_fs :: fs where
  \<comment> \<open>a file system in which an earlier run has left an output file\<close>
  "stale_fs = example_fs(Path [] [''Output'', ''a.com'', ''crawling_results.md''] \<mapsto> File (text_of ''stale text''))"

definition http_status_300 :: "request \<Rightarrow> http_outcome" where
  \<comment> \<open>a server that answers 300 (Multiple Choices) with a JSON body\<close>
  "http_status_300 req = Response 300 (Some (JObj [(''links'', JArr [JStr (text_of ''https://a.com'')])]))"

definition http_status_200 :: "request \<Rightarrow> http_outcome" where
  "http_status_200 req = Response 200 (Some (JObj [(''links'', JArr [JStr (text_of ''https://a.com'')])]))"

definition http_status_503 :: "request \<Rightarrow> http_outcome" where
  "http_status_503 req = Response 503 None"

definition example_args :: args where
  "example_args =
     \<lparr>arg_url = ''https://a.com/docs?page=2'', arg_depth = 1,
      arg_dataType = ''links'', arg_requestLimit = 10\<rparr>"

definition example_world :: "(request \<Rightarrow> http_outcome) \<Rightarrow> world" where
  "example_world h =
     \<lparr>http = h, py_str = py_str_example, valid_bracketed_host = any_bracketed_host\<rparr>"

section \<open>Properties of the renderer\<close>

lemma foldl_append_body: "foldl (\<lambda>md x. md @ f x) md xs = md @ concat (map f xs)"
  by (induction xs arbitrary: md) simp_all

lemma split_on_first: "sep \<notin> set u \<Longrightarrow> split_on sep (u @ sep # rest) = u # split_on sep rest"
  by (induction u) auto

lemma split_on_terminated:
  "\<forall>x\<in>set xs. sep \<notin> set (f x) \<Longrightarrow>
     split_on sep (concat (map (\<lambda>x. f x @ [sep]) xs)) = map f xs @ [[]]"
  by (induction xs) (simp_all add: split_on_first)

lemma format_value_JStr: "format_value str (JStr s) = s"
  by (simp add: format_value_def)

lemma text_of_append: "text_of (a @ b) = text_of a @ text_of b"
  by (simp add: text_of_def)

lemma surrogate_of_char: "\<not> surrogate (of_char c)"
  using nat_of_char_less_256 [of c] unfolding surrogate_def by linarith

lemma utf8_encodable_text_of: "utf8_encodable (text_of s)"
  by (simp add: utf8_encodable_def text_of_def list_all_iff surrogate_of_char)

lemma utf8_encodable_append: "utf8_encodable (a @ b) = (utf8_encodable a \<and> utf8_encodable b)"
  by (simp add: utf8_encodable_def)

lemma utf8_encodable_concat:
  "utf8_encodable (concat xs) = (\<forall>x\<in>set xs. utf8_encodable x)"
  by (induction xs) (simp_all add: utf8_encodable_append, simp add: utf8_encodable_def)

lemma md_content_links:
  "map_of items ''links'' = Some (JArr xs) \<Longrightarrow>
   md_content str (JObj items) ''links'' =
     Inr (title_heading @ sub_heading ''links'' @ text_of ''### Links encontrados:\<newline>\<newline>''
          @ concat (map (\<lambda>link. text_of ''- ['' @ format_value str link @ text_of '']('' @ format_value str link @ text_of '')\<newline>'') xs))"
  by (simp add: md_content_def for_each_def dict_get_def foldl_append_body)

lemma md_content_text:
  "map_of items ''texts'' = Some (JArr xs) \<Longrightarrow>
   md_content str (JObj items) ''text'' =
     Inr (title_heading @ sub_heading ''text'' @ text_of (''### Textos extra'' @ [CHR 0xED] @ ''dos:\<newline>\<newline>'')
          @ concat (map (\<lambda>text. format_value str text @ text_of ''\<newline>\<newline>---\<newline>\<newline>'') xs))"
  by (simp add: md_content_def for_each_def dict_get_def foldl_append_body)

lemma output_file_path:
  "path_div output_dir ''crawling_results.md'' =
     Path (root output_dir) (parts output_dir @ [''crawling_results.md''])"
  by (simp add: path_div_def path_root_def path_parts_def)

lemma write_text_in_dir:
  assumes "is_dir fs output_dir"
      and "fs (Path (root output_dir) (parts output_dir @ [''crawling_results.md''])) \<noteq> Some Dir"
      and "utf8_encodable md"
  shows "write_text (Path (root output_dir) (parts output_dir @ [''crawling_results.md''])) md fs =
           (None, fs(Path (root output_dir) (parts output_dir @ [''crawling_results.md'']) \<mapsto> File md))"
proof -
  let ?file = "Path (root output_dir) (parts output_dir @ [''crawling_results.md''])"
  from assms(1) have "\<not> has_null ?file" by (simp add: is_dir_def has_null_def)
  moreover have "parent ?file = output_dir" by (cases output_dir) (simp add: parent_def)
  moreover from assms(1) have "node_at fs output_dir = Some Dir" by (simp add: is_dir_def)
  moreover from assms(2) have "node_at fs ?file \<noteq> Some Dir" by (simp add: node_at_def)
  ultimately show ?thesis using assms(3)
    by (simp add: write_text_def split: option.splits node.splits)
qed

lemma save_as_markdown_in_dir:
  assumes "md_content str data data_type = Inr md"
      and "is_dir fs output_dir"
      and "fs (Path (root output_dir) (parts output_dir @ [''crawling_results.md''])) \<noteq> Some Dir"
      and "utf8_encodable md"
  shows "save_as_markdown str data output_dir data_type fs =
           (None, fs(Path (root output_dir) (parts output_dir @ [''crawling_results.md'']) \<mapsto> File md))"
  using assms(1) write_text_in_dir [OF assms(2-4)]
  by (simp add: save_as_markdown_def output_file_path)

text \<open>
  C3. When the \<^verbatim>\<open>links\<close> field of the response is a list of URL strings (strings with no
  line break and no surrogate code point) and the output directory exists, rendering with
  the selector \<^verbatim>\<open>links\<close> leaves in the file \<^verbatim>\<open>crawling_results.md\<close> of that directory the
  three headings followed by one entry \<^verbatim>\<open>- [url](url)\<close> per URL, each ended by a line
  break, in the order of the list; read line by line, the file is the heading lines and
  then exactly one list line per URL.
\<close>

theorem links_one_list_line_per_url:
  assumes "map_of items ''links'' = Some (JArr (map JStr urls))"
      and "\<forall>u\<in>set urls. line_break \<notin> set u \<and> utf8_encodable u"
      and "is_dir fs output_dir"
      and "fs (Path (root output_dir) (parts output_dir @ [''crawling_results.md''])) \<noteq> Some Dir"
  shows "save_as_markdown str (JObj items) output_dir ''links'' fs =
           (None,
            fs(Path (root output_dir) (parts output_dir @ [''crawling_results.md'']) \<mapsto>
               File (text_of ''# Resultado do Crawling\<newline>\<newline>## Tipo de dados: links\<newline>\<newline>### Links encontrados:\<newline>\<newline>''
                     @ concat (map (\<lambda>u. text_of ''- ['' @ u @ text_of '']('' @ u @ text_of '')'' @ [line_break]) urls))))
         \<and> split_on line_break
             (text_of ''# Resultado do Crawling\<newline>\<newline>## Tipo de dados: links\<newline>\<newline>### Links encontrados:\<newline>\<newline>''
              @ concat (map (\<lambda>u. text_of ''- ['' @ u @ text_of '']('' @ u @ text_of '')'' @ [line_break]) urls))
           = map text_of [''# Resultado do Crawling'', [], ''## Tipo de dados: links'', [], ''### Links encontrados:'', []]
             @ map (\<lambda>u. text_of ''- ['' @ u @ text_of '']('' @ u @ text_of '')'') urls @ [[]]"
proof
  let ?md = "text_of ''# Resultado do Crawling\<newline>\<newline>## Tipo de dados: links\<newline>\<newline>### Links encontrados:\<newline>\<newline>''
              @ concat (map (\<lambda>u. text_of ''- ['' @ u @ text_of '']('' @ u @ text_of '')'' @ [line_break]) urls)"
  from md_content_links [OF assms(1), of str]
  have md: "md_content str (JObj items) ''links'' = Inr ?md"
    by (simp add: title_heading_def sub_heading_def comp_def format_value_JStr text_of_def line_break_def)
  from assms(2) have "utf8_encodable ?md"
    by (simp add: utf8_encodable_append utf8_encodable_concat utf8_encodable_text_of)
       (simp add: utf8_encodable_def surrogate_def line_break_def)
  with md assms(3,4)
  show "save_as_markdown str (JObj items) output_dir ''links'' fs =
           (None, fs(Path (root output_dir) (parts output_dir @ [''crawling_results.md'']) \<mapsto> File ?md))"
    by (intro save_as_markdown_in_dir)
next
  have "\<forall>u\<in>set urls. line_break \<notin> set (text_of ''- ['' @ u @ text_of '']('' @ u @ text_of '')'')"
    using assms(2) by (simp add: text_of_def line_break_def)
  from split_on_terminated [OF this]
  show "split_on line_break
             (text_of ''# Resultado do Crawling\<newline>\<newline>## Tipo de dados: links\<newline>\<newline>### Links encontrados:\<newline>\<newline>''
              @ concat (map (\<lambda>u. text_of ''- ['' @ u @ text_of '']('' @ u @ text_of '')'' @ [line_break]) urls))
           = map text_of [''# Resultado do Crawling'', [], ''## Tipo de dados: links'', [], ''### Links encontrados:'', []]
             @ map (\<lambda>u. text_of ''- ['' @ u @ text_of '']('' @ u @ text_of '')'') urls @ [[]]"
    by (simp add: text_of_def line_break_def)
qed

theorem links_one_list_line_per_url_witness:
  "save_as_markdown py_str_example
     (JObj [(''links'', JArr [JStr (text_of ''https://a.com''), JStr (text_of ''https://b.com'')])])
     (Path [] [''Output'', ''a.com'']) ''links'' example_fs =
   (None,
    example_fs(Path [] [''Output'', ''a.com'', ''crawling_results.md''] \<mapsto>
      File (text_of ''# Resultado do Crawling\<newline>\<newline>## Tipo de dados: links\<newline>\<newline>### Links encontrados:\<newline>\<newline>- [https://a.com](https://a.com)\<newline>- [https://b.com](https://b.com)\<newline>'')))
   \<and> split_on line_break
     (text_of ''# Resultado do Crawling\<newline>\<newline>## Tipo de dados: links\<newline>\<newline>### Links encontrados:\<newline>\<newline>- [https://a.com](https://a.com)\<newline>- [https://b.com](https://b.com)\<newline>'')
     = map text_of
         [''# Resultado do Crawling'', [], ''## Tipo de dados: links'', [], ''### Links encontrados:'', [],
          ''- [https://a.com](https://a.com)'', ''- [https://b.com](https://b.com)'', []]"
proof -
  have h: "map_of [(''links'', JArr [JStr (text_of ''https://a.com''), JStr (text_of ''https://b.com'')])] ''links''
             = Some (JArr (map JStr [text_of ''https://a.com'', text_of ''https://b.com'']))"
    "\<forall>u\<in>set [text_of ''https://a.com'', text_of ''https://b.com'']. line_break \<notin> set u \<and> utf8_encodable u"
    "is_dir example_fs (Path [] [''Output'', ''a.com''])"
    "example_fs (Path (root (Path [] [''Output'', ''a.com'']))
        (parts (Path [] [''Output'', ''a.com'']) @ [''crawling_results.md''])) \<noteq> Some Dir"
    by (simp_all add: utf8_encodable_text_of is_dir_def has_null_def node_at_def example_fs_def empty_fs_def)
       (simp add: text_of_def line_break_def)
  from links_one_list_line_per_url [OF h, of py_str_example]
  show ?thesis by (simp add: text_of_def line_break_def)
qed

lemma split_on_text_entries:
  "\<forall>t\<in>set ts. line_break \<notin> set t \<Longrightarrow>
     split_on line_break
       (concat (map (\<lambda>t. t @ [line_break, line_break] @ text_of ''---'' @ [line_break, line_break]) ts))
       = concat (map (\<lambda>t. [t, [], text_of ''---'', []]) ts) @ [[]]"
  by (induction ts) (simp_all add: split_on_first, simp_all add: text_of_def line_break_def)

text \<open>
  C4 (as the code has it). When the \<^verbatim>\<open>texts\<close> field of the response is a non-empty list
  of strings that UTF-8 can encode (strings with no surrogate code point) and the output
  directory exists, rendering with the selector \<^verbatim>\<open>text\<close> leaves in the file
  \<^verbatim>\<open>crawling_results.md\<close> of that directory the three headings and then every entry
  followed by an empty line, the rule line \<^verbatim>\<open>---\<close> and another empty line: consecutive
  entries are separate paragraphs with a horizontal rule between them (and a rule follows
  the last one). For entries without line breaks the lines of the file are spelled out.
\<close>

theorem texts_paragraphs_separated_by_rule:
  assumes "map_of items ''texts'' = Some (JArr (map JStr texts))"
      and "texts \<noteq> []"
      and "\<forall>t\<in>set texts. utf8_encodable t"
      and "is_dir fs output_dir"
      and "fs (Path (root output_dir) (parts output_dir @ [''crawling_results.md''])) \<noteq> Some Dir"
  shows "save_as_markdown str (JObj items) output_dir ''text'' fs =
           (None,
            fs(Path (root output_dir) (parts output_dir @ [''crawling_results.md'']) \<mapsto>
               File (text_of (''# Resultado do Crawling\<newline>\<newline>## Tipo de dados: text\<newline>\<newline>### Textos extra'' @ [CHR 0xED] @ ''dos:\<newline>\<newline>'')
                     @ concat (map (\<lambda>t. t @ [line_break, line_break] @ text_of ''---'' @ [line_break, line_break]) texts))))
         \<and> ((\<forall>t\<in>set texts. line_break \<notin> set t) \<longrightarrow>
             split_on line_break
               (text_of (''# Resultado do Crawling\<newline>\<newline>## Tipo de dados: text\<newline>\<newline>### Textos extra'' @ [CHR 0xED] @ ''dos:\<newline>\<newline>'')
                @ concat (map (\<lambda>t. t @ [line_break, line_break] @ text_of ''---'' @ [line_break, line_break]) texts))
             = map text_of [''# Resultado do Crawling'', [], ''## Tipo de dados: text'', [],
                            ''### Textos extra'' @ [CHR 0xED] @ ''dos:'', []]
               @ concat (map (\<lambda>t. [t, [], text_of ''---'', []]) texts) @ [[]])"
proof
  let ?md = "text_of (''# Resultado do Crawling\<newline>\<newline>## Tipo de dados: text\<newline>\<newline>### Textos extra'' @ [CHR 0xED] @ ''dos:\<newline>\<newline>'')
                @ concat (map (\<lambda>t. t @ [line_break, line_break] @ text_of ''---'' @ [line_break, line_break]) texts)"
  from md_content_text [OF assms(1), of str]
  have md: "md_content str (JObj items) ''text'' = Inr ?md"
    by (simp add: title_heading_def sub_heading_def comp_def format_value_JStr text_of_def line_break_def)
  from assms(3) have "utf8_encodable ?md"
    by (simp add: utf8_encodable_append utf8_encodable_concat utf8_encodable_text_of)
       (simp add: utf8_encodable_def surrogate_def line_break_def text_of_def)
  with md assms(4,5)
  show "save_as_markdown str (JObj items) output_dir ''text'' fs =
           (None, fs(Path (root output_dir) (parts output_dir @ [''crawling_results.md'']) \<mapsto> File ?md))"
    by (intro save_as_markdown_in_dir)
next
  show "(\<forall>t\<in>set texts. line_break \<notin> set t) \<longrightarrow>
             split_on line_break
               (text_of (''# Resultado do Crawling\<newline>\<newline>## Tipo de dados: text\<newline>\<newline>### Textos extra'' @ [CHR 0xED] @ ''dos:\<newline>\<newline>'')
                @ concat (map (\<lambda>t. t @ [line_break, line_break] @ text_of ''---'' @ [line_break, line_break]) texts))
             = map text_of [''# Resultado do Crawling'', [], ''## Tipo de dados: text'', [],
                            ''### Textos extra'' @ [CHR 0xED] @ ''dos:'', []]
               @ concat (map (\<lambda>t. [t, [], text_of ''---'', []]) texts) @ [[]]"
  proof
    assume "\<forall>t\<in>set texts. line_break \<notin> set t"
    from split_on_text_entries [OF this]
    show "split_on line_break
               (text_of (''# Resultado do Crawling\<newline>\<newline>## Tipo de dados: text\<newline>\<newline>### Textos extra'' @ [CHR 0xED] @ ''dos:\<newline>\<newline>'')
                @ concat (map (\<lambda>t. t @ [line_break, line_break] @ text_of ''---'' @ [line_break, line_break]) texts))
             = map text_of [''# Resultado do Crawling'', [], ''## Tipo de dados: text'', [],
                            ''### Textos extra'' @ [CHR 0xED] @ ''dos:'', []]
               @ concat (map (\<lambda>t. [t, [], text_of ''---'', []]) texts) @ [[]]"
      by (simp add: text_of_def line_break_def)
  qed
qed

theorem texts_paragraphs_separated_by_rule_witness:
  "save_as_markdown py_str_example
     (JObj [(''texts'', JArr [JStr (text_of ''Hello''), JStr (text_of ''World'')])])
     (Path [] [''Output'', ''a.com'']) ''text'' example_fs =
   (None,
    example_fs(Path [] [''Output'', ''a.com'', ''crawling_results.md''] \<mapsto>
      File (text_of (''# Resultado do Crawling\<newline>\<newline>## Tipo de dados: text\<newline>\<newline>### Textos extra'' @ [CHR 0xED]
             @ ''dos:\<newline>\<newline>Hello\<newline>\<newline>---\<newline>\<newline>World\<newline>\<newline>---\<newline>\<newline>''))))
   \<and> split_on line_break
     (text_of (''# Resultado do Crawling\<newline>\<newline>## Tipo de dados: text\<newline>\<newline>### Textos extra'' @ [CHR 0xED]
        @ ''dos:\<newline>\<newline>Hello\<newline>\<newline>---\<newline>\<newline>World\<newline>\<newline>---\<newline>\<newline>''))
     = map text_of
         [''# Resultado do Crawling'', [], ''## Tipo de dados: text'', [],
          ''### Textos extra'' @ [CHR 0xED] @ ''dos:'', [],
          ''Hello'', [], ''---'', [], ''World'', [], ''---'', [], []]"
proof -
  have h: "map_of [(''texts'', JArr [JStr (text_of ''Hello''), JStr (text_of ''World'')])] ''texts''
             = Some (JArr (map JStr [text_of ''Hello'', text_of ''World'']))"
    "[text_of ''Hello'', text_of ''World''] \<noteq> []"
    "\<forall>t\<in>set [text_of ''Hello'', text_of ''World'']. utf8_encodable t"
    "is_dir example_fs (Path [] [''Output'', ''a.com''])"
    "example_fs (Path (root (Path [] [''Output'', ''a.com'']))
        (parts (Path [] [''Output'', ''a.com'']) @ [''crawling_results.md''])) \<noteq> Some Dir"
    by (simp_all add: utf8_encodable_text_of is_dir_def has_null_def node_at_def example_fs_def empty_fs_def)
  from texts_paragraphs_separated_by_rule [OF h, of py_str_example]
  show ?thesis by (simp add: text_of_def line_break_def)
qed

text \<open>
  C4 as the specification states it fails for a string that UTF-8 cannot encode: when
  the only entry of \<^verbatim>\<open>texts\<close> is the lone surrogate \<^verbatim>\<open>U+D800\<close> (the JSON string
  \<^verbatim>\<open>"\ud800"\<close>), the renderer raises \<^verbatim>\<open>UnicodeEncodeError\<close> and leaves the output file
  empty, with no paragraph and no rule line in it.
\<close>

theorem texts_lone_surrogate_leaves_empty_file:
  "map_of [(''texts'', JArr [JStr [0xD800]])] ''texts'' = Some (JArr (map JStr [[0xD800]]))
   \<and> save_as_markdown py_str_example (JObj [(''texts'', JArr [JStr [0xD800]])])
       (Path [] [''Output'', ''a.com'']) ''text'' example_fs =
     (Some UnicodeEncodeError,
      example_fs(Path [] [''Output'', ''a.com'', ''crawling_results.md''] \<mapsto> File []))"
  by (simp add: save_as_markdown_def md_content_def for_each_def dict_get_def format_value_def
        title_heading_def sub_heading_def text_of_def
        path_div_def path_root_def path_parts_def write_text_def has_null_def
        node_at_def parent_def example_fs_def empty_fs_def utf8_encodable_def surrogate_def)

text \<open>
  C6 (as the code has it). When the selector is none of \<^verbatim>\<open>links\<close>, \<^verbatim>\<open>text\<close>,
  \<^verbatim>\<open>images\<close>, the renderer writes the fixed title heading and the sub-heading that names
  the selector, and nothing else: no body section. This holds for every response,
  whether a dict or not.
\<close>

theorem unknown_selector_headings_only:
  assumes "data_type \<notin> {''links'', ''text'', ''images''}"
  shows "md_content str data data_type =
           Inr (text_of (''# Resultado do Crawling\<newline>\<newline>'' @ ''## Tipo de dados: '' @ data_type @ ''\<newline>\<newline>''))
         \<and> save_as_markdown str data output_dir data_type fs =
             write_text (path_div output_dir ''crawling_results.md'')
               (text_of (''# Resultado do Crawling\<newline>\<newline>'' @ ''## Tipo de dados: '' @ data_type @ ''\<newline>\<newline>'')) fs"
  using assms
  by (simp add: save_as_markdown_def md_content_def title_heading_def sub_heading_def text_of_def)

theorem unknown_selector_headings_only_witness:
  "md_content py_str_example (JObj [(''links'', JArr [JStr (text_of ''https://a.com'')])]) ''videos'' =
     Inr (text_of ''# Resultado do Crawling\<newline>\<newline>## Tipo de dados: videos\<newline>\<newline>'')
   \<and> save_as_markdown py_str_example (JObj [(''links'', JArr [JStr (text_of ''https://a.com'')])])
       (Path [] [''Output'', ''a.com'']) ''videos'' example_fs =
     (None,
      example_fs(Path [] [''Output'', ''a.com'', ''crawling_results.md''] \<mapsto>
        File (text_of ''# Resultado do Crawling\<newline>\<newline>## Tipo de dados: videos\<newline>\<newline>'')))"
  using unknown_selector_headings_only
    [of "''videos''" py_str_example "JObj [(''links'', JArr [JStr (text_of ''https://a.com'')])]"
        "Path [] [''Output'', ''a.com'']" example_fs]
  by (simp add: path_div_def path_root_def path_parts_def write_text_def has_null_def
        node_at_def parent_def example_fs_def empty_fs_def text_of_def
        utf8_encodable_def surrogate_def)

text \<open>
  C6 as the specification states it fails: with the selector \<^verbatim>\<open>videos\<close> the file written
  is not the title heading alone, for the sub-heading naming the selector follows it.
\<close>

theorem unknown_selector_not_title_only:
  "save_as_markdown py_str_example (JObj []) (Path [] [''Output'', ''a.com'']) ''videos'' example_fs =
     (None,
      example_fs(Path [] [''Output'', ''a.com'', ''crawling_results.md''] \<mapsto>
        File (text_of ''# Resultado do Crawling\<newline>\<newline>## Tipo de dados: videos\<newline>\<newline>'')))
   \<and> text_of ''# Resultado do Crawling\<newline>\<newline>## Tipo de dados: videos\<newline>\<newline>'' \<noteq> title_heading"
  by (simp add: save_as_markdown_def md_content_def title_heading_def sub_heading_def text_of_def
        path_div_def path_root_def path_parts_def write_text_def has_null_def
        node_at_def parent_def example_fs_def empty_fs_def text_of_def
        utf8_encodable_def surrogate_def)

text \<open>
  C7. When the response is a dict without the field of the selected data type, rendering
  raises nothing: the content is the title heading, the sub-heading naming the data type
  and the heading of the body section with no entry under it, and the renderer goes on
  to write exactly that content.
\<close>

theorem missing_field_empty_section:
  "(map_of items ''links'' = None \<longrightarrow>
      md_content str (JObj items) ''links'' =
        Inr (text_of ''# Resultado do Crawling\<newline>\<newline>## Tipo de dados: links\<newline>\<newline>### Links encontrados:\<newline>\<newline>'')
      \<and> save_as_markdown str (JObj items) output_dir ''links'' fs =
          write_text (path_div output_dir ''crawling_results.md'')
            (text_of ''# Resultado do Crawling\<newline>\<newline>## Tipo de dados: links\<newline>\<newline>### Links encontrados:\<newline>\<newline>'') fs)
   \<and> (map_of items ''texts'' = None \<longrightarrow>
      md_content str (JObj items) ''text'' =
        Inr (text_of (''# Resultado do Crawling\<newline>\<newline>## Tipo de dados: text\<newline>\<newline>### Textos extra'' @ [CHR 0xED] @ ''dos:\<newline>\<newline>''))
      \<and> save_as_markdown str (JObj items) output_dir ''text'' fs =
          write_text (path_div output_dir ''crawling_results.md'')
            (text_of (''# Resultado do Crawling\<newline>\<newline>## Tipo de dados: text\<newline>\<newline>### Textos extra'' @ [CHR 0xED] @ ''dos:\<newline>\<newline>'')) fs)
   \<and> (map_of items ''images'' = None \<longrightarrow>
      md_content str (JObj items) ''images'' =
        Inr (text_of ''# Resultado do Crawling\<newline>\<newline>## Tipo de dados: images\<newline>\<newline>### Imagens encontradas:\<newline>\<newline>'')
      \<and> save_as_markdown str (JObj items) output_dir ''images'' fs =
          write_text (path_div output_dir ''crawling_results.md'')
            (text_of ''# Resultado do Crawling\<newline>\<newline>## Tipo de dados: images\<newline>\<newline>### Imagens encontradas:\<newline>\<newline>'') fs)"
  by (simp add: save_as_markdown_def md_content_def for_each_def dict_get_def
        title_heading_def sub_heading_def text_of_def)

theorem missing_field_empty_section_witness:
  "md_content py_str_example (JObj [(''status'', JStr (text_of ''ok''))]) ''links'' =
     Inr (text_of ''# Resultado do Crawling\<newline>\<newline>## Tipo de dados: links\<newline>\<newline>### Links encontrados:\<newline>\<newline>'')
   \<and> md_content py_str_example (JObj [(''status'', JStr (text_of ''ok''))]) ''text'' =
     Inr (text_of (''# Resultado do Crawling\<newline>\<newline>## Tipo de dados: text\<newline>\<newline>### Textos extra'' @ [CHR 0xED] @ ''dos:\<newline>\<newline>''))
   \<and> md_content py_str_example (JObj [(''status'', JStr (text_of ''ok''))]) ''images'' =
     Inr (text_of ''# Resultado do Crawling\<newline>\<newline>## Tipo de dados: images\<newline>\<newline>### Imagens encontradas:\<newline>\<newline>'')
   \<and> save_as_markdown py_str_example (JObj [(''status'', JStr (text_of ''ok''))])
       (Path [] [''Output'', ''a.com'']) ''links'' example_fs =
     (None,
      example_fs(Path [] [''Output'', ''a.com'', ''crawling_results.md''] \<mapsto>
        File (text_of ''# Resultado do Crawling\<newline>\<newline>## Tipo de dados: links\<newline>\<newline>### Links encontrados:\<newline>\<newline>'')))"
  using missing_field_empty_section
    [of "[(''status'', JStr (text_of ''ok''))]" py_str_example "Path [] [''Output'', ''a.com'']" example_fs]
  by (simp add: path_div_def path_root_def path_parts_def write_text_def has_null_def
        node_at_def parent_def example_fs_def empty_fs_def text_of_def
        utf8_encodable_def surrogate_def)

text \<open>
  C9. For each of the three data types, a dict whose selected field is the empty list
  renders exactly as a dict that has no such field.
\<close>

theorem empty_list_same_as_absent:
  "(map_of d1 ''links'' = Some (JArr []) \<and> map_of d2 ''links'' = None \<longrightarrow>
      md_content str (JObj d1) ''links'' = md_content str (JObj d2) ''links''
      \<and> save_as_markdown str (JObj d1) output_dir ''links'' fs =
          save_as_markdown str (JObj d2) output_dir ''links'' fs)
   \<and> (map_of d1 ''texts'' = Some (JArr []) \<and> map_of d2 ''texts'' = None \<longrightarrow>
      md_content str (JObj d1) ''text'' = md_content str (JObj d2) ''text''
      \<and> save_as_markdown str (JObj d1) output_dir ''text'' fs =
          save_as_markdown str (JObj d2) output_dir ''text'' fs)
   \<and> (map_of d1 ''images'' = Some (JArr []) \<and> map_of d2 ''images'' = None \<longrightarrow>
      md_content str (JObj d1) ''images'' = md_content str (JObj d2) ''images''
      \<and> save_as_markdown str (JObj d1) output_dir ''images'' fs =
          save_as_markdown str (JObj d2) output_dir ''images'' fs)"
  by (simp add: save_as_markdown_def md_content_def for_each_def dict_get_def)

theorem empty_list_same_as_absent_witness:
  "md_content py_str_example (JObj [(''links'', JArr []), (''texts'', JArr []), (''images'', JArr [])]) ''links''
     = md_content py_str_example (JObj []) ''links''
   \<and> md_content py_str_example (JObj [(''links'', JArr []), (''texts'', JArr []), (''images'', JArr [])]) ''text''
     = md_content py_str_example (JObj []) ''text''
   \<and> md_content py_str_example (JObj [(''links'', JArr []), (''texts'', JArr []), (''images'', JArr [])]) ''images''
     = md_content py_str_example (JObj []) ''images''
   \<and> md_content py_str_example (JObj []) ''links'' =
       Inr (text_of ''# Resultado do Crawling\<newline>\<newline>## Tipo de dados: links\<newline>\<newline>### Links encontrados:\<newline>\<newline>'')"
proof -
  have "md_content py_str_example (JObj []) ''links'' =
       Inr (text_of ''# Resultado do Crawling\<newline>\<newline>## Tipo de dados: links\<newline>\<newline>### Links encontrados:\<newline>\<newline>'')"
    by (simp add: md_content_def for_each_def dict_get_def title_heading_def sub_heading_def text_of_def)
  with empty_list_same_as_absent
    [of "[(''links'', JArr []), (''texts'', JArr []), (''images'', JArr [])]" "[]"
        py_str_example "Path [] [''Output'', ''a.com'']" example_fs]
  show ?thesis by simp
qed

text \<open>
  C10. For each of the three data types, two dicts that agree on the field the data
  type selects are rendered alike (the same content, or the same exception), and the
  renderer does the same to the file system: no other field of the response has any
  influence.
\<close>

theorem only_selected_field_matters:
  "(map_of d1 ''links'' = map_of d2 ''links'' \<longrightarrow>
      md_content str (JObj d1) ''links'' = md_content str (JObj d2) ''links''
      \<and> save_as_markdown str (JObj d1) output_dir ''links'' fs =
          save_as_markdown str (JObj d2) output_dir ''links'' fs)
   \<and> (map_of d1 ''texts'' = map_of d2 ''texts'' \<longrightarrow>
      md_content str (JObj d1) ''text'' = md_content str (JObj d2) ''text''
      \<and> save_as_markdown str (JObj d1) output_dir ''text'' fs =
          save_as_markdown str (JObj d2) output_dir ''text'' fs)
   \<and> (map_of d1 ''images'' = map_of d2 ''images'' \<longrightarrow>
      md_content str (JObj d1) ''images'' = md_content str (JObj d2) ''images''
      \<and> save_as_markdown str (JObj d1) output_dir ''images'' fs =
          save_as_markdown str (JObj d2) output_dir ''images'' fs)"
  by (simp add: save_as_markdown_def md_content_def dict_get_def)

theorem only_selected_field_matters_witness:
  "md_content py_str_example
     (JObj [(''links'', JArr [JStr (text_of ''https://a.com'')]), (''texts'', JArr [JStr (text_of ''private'')]), (''token'', JInt 7)]) ''links''
     = md_content py_str_example (JObj [(''links'', JArr [JStr (text_of ''https://a.com'')])]) ''links''
   \<and> md_content py_str_example (JObj [(''links'', JArr [JStr (text_of ''https://a.com'')])]) ''links'' =
       Inr (text_of ''# Resultado do Crawling\<newline>\<newline>## Tipo de dados: links\<newline>\<newline>### Links encontrados:\<newline>\<newline>- [https://a.com](https://a.com)\<newline>'')
   \<and> md_content py_str_example
     (JObj [(''links'', JArr [JStr (text_of ''https://a.com'')]), (''texts'', JArr [JStr (text_of ''private'')]), (''token'', JInt 7)]) ''images''
     = md_content py_str_example (JObj [(''links'', JArr [JStr (text_of ''https://a.com'')])]) ''images''"
proof -
  have "md_content py_str_example (JObj [(''links'', JArr [JStr (text_of ''https://a.com'')])]) ''links'' =
       Inr (text_of ''# Resultado do Crawling\<newline>\<newline>## Tipo de dados: links\<newline>\<newline>### Links encontrados:\<newline>\<newline>- [https://a.com](https://a.com)\<newline>'')"
    by (simp add: md_content_def for_each_def dict_get_def title_heading_def sub_heading_def
          format_value_def text_of_def)
  with only_selected_field_matters
    [of "[(''links'', JArr [JStr (text_of ''https://a.com'')]), (''texts'', JArr [JStr (text_of ''private'')]), (''token'', JInt 7)]"
        "[(''links'', JArr [JStr (text_of ''https://a.com'')])]"
        py_str_example "Path [] [''Output'', ''a.com'']" example_fs]
  show ?thesis by simp
qed

section \<open>Properties of the file system operations\<close>

lemma os_mkdir_Inr:
  "os_mkdir p fs = Inr fs' \<Longrightarrow>
     fs' = fs(p \<mapsto> Dir) \<and> fs p = None \<and> parts p \<noteq> [] \<and> \<not> has_null p"
  by (auto simp: os_mkdir_def node_at_def split: if_splits option.splits node.splits)

lemma mkdir_no_parents_Inr:
  assumes "mkdir_no_parents p fs = Inr fs'"
  shows "is_dir fs' p \<and> (\<forall>q. fs' q = fs q \<or> (fs q = None \<and> fs' q = Some Dir))"
proof (cases "os_mkdir p fs")
  case (Inr fs1)
  with assms have "fs' = fs1" by (simp add: mkdir_no_parents_def)
  with os_mkdir_Inr [OF Inr] show ?thesis by (simp add: is_dir_def node_at_def)
next
  case (Inl e)
  with assms have "is_dir fs p \<and> fs' = fs"
    by (cases e) (simp_all add: mkdir_no_parents_def split: if_splits)
  then show ?thesis by simp
qed

lemma mkdir_Inr:
  "mkdir p fs = Inr fs' \<Longrightarrow>
     is_dir fs' p \<and> (\<forall>q. fs' q = fs q \<or> (fs q = None \<and> fs' q = Some Dir))"
proof (induction p fs arbitrary: fs' rule: mkdir.induct)
  case (1 p fs)
  show ?case
  proof (cases "os_mkdir p fs")
    case (Inr fs1)
    with "1.prems" have "fs' = fs1" by (simp add: mkdir.simps [of p fs])
    with os_mkdir_Inr [OF Inr] show ?thesis by (simp add: is_dir_def node_at_def)
  next
    case (Inl e)
    show ?thesis
    proof (cases "e = FileNotFoundError")
      case True
      with Inl "1.prems" have np: "parent p \<noteq> p"
        by (simp add: mkdir.simps [of p fs] split: if_splits)
      with Inl True "1.prems" obtain fs1 where
        up: "mkdir (parent p) fs = Inr fs1" and last: "mkdir_no_parents p fs1 = Inr fs'"
        by (simp add: mkdir.simps [of p fs] split: sum.splits)
      from "1.IH" [OF Inl True np up]
      have a: "\<forall>q. fs1 q = fs q \<or> (fs q = None \<and> fs1 q = Some Dir)" by simp
      from mkdir_no_parents_Inr [OF last]
      have b: "is_dir fs' p" and c: "\<forall>q. fs' q = fs1 q \<or> (fs1 q = None \<and> fs' q = Some Dir)"
        by simp_all
      have "\<forall>q. fs' q = fs q \<or> (fs q = None \<and> fs' q = Some Dir)"
      proof
        fix q
        from a have "fs1 q = fs q \<or> (fs q = None \<and> fs1 q = Some Dir)" by simp
        moreover from c have "fs' q = fs1 q \<or> (fs1 q = None \<and> fs' q = Some Dir)" by simp
        ultimately show "fs' q = fs q \<or> (fs q = None \<and> fs' q = Some Dir)" by auto
      qed
      with b show ?thesis by simp
    next
      case False
      with Inl "1.prems" have "is_dir fs p \<and> fs' = fs"
        by (cases e) (simp_all add: mkdir.simps [of p fs] split: if_splits)
      then show ?thesis by simp
    qed
  qed
qed

lemma mkdir_existing:
  assumes "is_dir fs p" and "parts p \<noteq> []"
  shows "mkdir p fs = Inr fs"
proof -
  from assms have "os_mkdir p fs = Inl FileExistsError"
    by (simp add: os_mkdir_def is_dir_def)
  with assms(1) show ?thesis by (simp add: mkdir.simps [of p fs])
qed

lemma write_text_None:
  "write_text p md fs = (None, fs') \<Longrightarrow>
     fs' = fs(p \<mapsto> File md) \<and> \<not> has_null p \<and> node_at fs (parent p) = Some Dir
     \<and> fs p \<noteq> Some Dir \<and> utf8_encodable md"
  by (auto simp: write_text_def node_at_def split: if_splits option.splits node.splits)

lemma write_text_again:
  assumes "\<not> has_null p" and "parts p \<noteq> []" and "fs p = Some (File md)"
      and "node_at fs (parent p) = Some Dir" and "utf8_encodable md"
  shows "write_text p md fs = (None, fs)"
proof -
  from assms(3) have "fs(p \<mapsto> File md) = fs" by (rule map_upd_triv)
  with assms show ?thesis by (simp add: write_text_def node_at_def)
qed

section \<open>Properties of a run\<close>

lemma crawl_site_request:
  "fst (crawl_site h u d t l) =
     Get firecrawl_api_url
       [(''url'', PStr u), (''depth'', PInt d), (''dataType'', PStr t), (''limit'', PInt l)]"
  by (simp add: crawl_site_def Let_def)

lemma main_sent:
  "sent (main w a fs) = [] \<or>
   sent (main w a fs) =
     [fst (crawl_site (http w) (arg_url a) (arg_depth a) (arg_dataType a) (arg_requestLimit a))]"
  by (auto simp: main_def split: sum.splits prod.splits)

lemma main_success:
  assumes "raised (main w a fs) = None"
  shows "\<exists>out fs1 result md.
           output_dir_of (valid_bracketed_host w) (arg_url a) = Inr out
         \<and> mkdir out fs = Inr fs1
         \<and> snd (crawl_site (http w) (arg_url a) (arg_depth a) (arg_dataType a) (arg_requestLimit a))
             = Inr result
         \<and> md_content (py_str w) result (arg_dataType a) = Inr md
         \<and> write_text (path_div out ''crawling_results.md'') md fs1 = (None, files (main w a fs))
         \<and> sent (main w a fs) =
             [fst (crawl_site (http w) (arg_url a) (arg_depth a) (arg_dataType a) (arg_requestLimit a))]"
  using assms
  by (auto simp: main_def save_as_markdown_def split: sum.splits prod.splits)

lemma main_stages:
  assumes "output_dir_of (valid_bracketed_host w) (arg_url a) = Inr out"
      and "mkdir out fs = Inr fs1"
      and "snd (crawl_site (http w) (arg_url a) (arg_depth a) (arg_dataType a) (arg_requestLimit a))
             = Inr result"
      and "md_content (py_str w) result (arg_dataType a) = Inr md"
      and "write_text (path_div out ''crawling_results.md'') md fs1 = (None, fs2)"
  shows "main w a fs =
           \<lparr>raised = None, files = fs2,
            sent = [fst (crawl_site (http w) (arg_url a) (arg_depth a) (arg_dataType a) (arg_requestLimit a))]\<rparr>"
  using assms
  by (cases "crawl_site (http w) (arg_url a) (arg_depth a) (arg_dataType a) (arg_requestLimit a)")
     (simp add: main_def save_as_markdown_def)

lemma urlparse_netloc_no_slash:
  assumes "urlparse_netloc valid u = Inr d"
  shows "CHR ''/'' \<notin> set d"
proof
  assume "CHR ''/'' \<in> set d"
  moreover from this assms
  have "d = splitnetloc (split_scheme (filter (\<lambda>c. c \<notin> set unsafe_url_bytes_to_remove)
                (dropWhile c0_control_or_space u)))"
    by (auto simp: urlparse_netloc_def Let_def split: if_splits)
  ultimately show False
    by (auto simp: splitnetloc_def dest: set_takeWhileD)
qed

lemma path_root_relative: "CHR ''/'' \<notin> set s \<Longrightarrow> path_root s = []"
  by (cases s) (auto simp: path_root_def)

lemma output_dir_parts:
  assumes "output_dir_of valid u = Inr out"
  shows "parts out \<noteq> []"
proof -
  from assms obtain d where d: "urlparse_netloc valid u = Inr d"
    and out: "out = path_div (path_of ''Output'') d"
    by (auto simp: output_dir_of_def split: sum.splits)
  from urlparse_netloc_no_slash [OF d] have "path_root d = []" by (rule path_root_relative)
  with out show ?thesis by (simp add: path_div_def path_of_def path_parts_def)
qed

lemma output_dir_of_error:
  "output_dir_of valid u = Inl e \<Longrightarrow> exit_status (Some e) = 1"
  by (auto simp: output_dir_of_def urlparse_netloc_def Let_def exit_status_def
           split: sum.splits if_splits)

lemma os_mkdir_error: "os_mkdir p fs = Inl e \<Longrightarrow> exit_status (Some e) = 1"
  by (auto simp: os_mkdir_def exit_status_def split: if_splits option.splits node.splits)

lemma mkdir_no_parents_error: "mkdir_no_parents p fs = Inl e \<Longrightarrow> exit_status (Some e) = 1"
proof (cases "os_mkdir p fs")
  case (Inr fs1)
  moreover assume "mkdir_no_parents p fs = Inl e"
  ultimately show ?thesis by (simp add: mkdir_no_parents_def)
next
  case (Inl e')
  moreover assume "mkdir_no_parents p fs = Inl e"
  ultimately have "e = e'"
    by (cases e') (simp_all add: mkdir_no_parents_def split: if_splits)
  with os_mkdir_error [OF Inl] show ?thesis by simp
qed

lemma mkdir_error: "mkdir p fs = Inl e \<Longrightarrow> exit_status (Some e) = 1"
proof (induction p fs arbitrary: e rule: mkdir.induct)
  case (1 p fs)
  show ?case
  proof (cases "os_mkdir p fs")
    case (Inr fs1)
    with "1.prems" show ?thesis by (simp add: mkdir.simps [of p fs])
  next
    case (Inl e')
    show ?thesis
    proof (cases "e' = FileNotFoundError")
      case False
      with Inl "1.prems" have "e = e'"
        by (cases e') (simp_all add: mkdir.simps [of p fs] split: if_splits)
      with os_mkdir_error [OF Inl] show ?thesis by simp
    next
      case True
      show ?thesis
      proof (cases "parent p = p")
        case same: True
        with Inl True "1.prems" have "e = FileNotFoundError"
          by (simp add: mkdir.simps [of p fs])
        then show ?thesis by (simp add: exit_status_def)
      next
        case np: False
        show ?thesis
        proof (cases "mkdir (parent p) fs")
          case up: (Inl e2)
          with Inl True np "1.prems" have "e = e2" by (simp add: mkdir.simps [of p fs])
          with "1.IH" [OF Inl True np up] show ?thesis by simp
        next
          case up: (Inr fs1)
          with Inl True np "1.prems" have "mkdir_no_parents p fs1 = Inl e"
            by (simp add: mkdir.simps [of p fs])
          then show ?thesis by (rule mkdir_no_parents_error)
        qed
      qed
    qed
  qed
qed

lemma crawl_site_failure:
  assumes "h (Get firecrawl_api_url
              [(''url'', PStr u), (''depth'', PInt d), (''dataType'', PStr t), (''limit'', PInt l)])
             = RequestException
           \<or> (\<exists>status_code body.
                h (Get firecrawl_api_url
                    [(''url'', PStr u), (''depth'', PInt d), (''dataType'', PStr t), (''limit'', PInt l)])
                  = Response status_code body
                \<and> 400 \<le> status_code \<and> status_code < 600)"
  shows "snd (crawl_site h u d t l) = Inl (SystemExit 1)"
  using assms by (auto simp: crawl_site_def Let_def raise_for_status_def)

lemma main_failure:
  assumes "snd (crawl_site (http w) (arg_url a) (arg_depth a) (arg_dataType a) (arg_requestLimit a))
             = Inl (SystemExit 1)"
  shows "exit_status (raised (main w a fs)) = 1
         \<and> (\<forall>p. files (main w a fs) p \<noteq> fs p \<longrightarrow> fs p = None \<and> files (main w a fs) p = Some Dir)"
proof (cases "output_dir_of (valid_bracketed_host w) (arg_url a)")
  case (Inl e)
  with output_dir_of_error [OF Inl] show ?thesis by (simp add: main_def)
next
  case out: (Inr out)
  show ?thesis
  proof (cases "mkdir out fs")
    case (Inl e)
    with out mkdir_error [OF Inl] show ?thesis by (simp add: main_def)
  next
    case (Inr fs1)
    from mkdir_Inr [OF Inr]
    have "\<forall>q. fs1 q = fs q \<or> (fs q = None \<and> fs1 q = Some Dir)" by simp
    moreover from out Inr assms
    have "main w a fs =
            \<lparr>raised = Some (SystemExit 1), files = fs1,
             sent = [fst (crawl_site (http w) (arg_url a) (arg_depth a) (arg_dataType a) (arg_requestLimit a))]\<rparr>"
      by (cases "crawl_site (http w) (arg_url a) (arg_depth a) (arg_dataType a) (arg_requestLimit a)")
         (simp add: main_def)
    ultimately show ?thesis by (auto simp: exit_status_def)
  qed
qed

lemma main_stages_failed:
  assumes "output_dir_of (valid_bracketed_host w) (arg_url a) = Inr out"
      and "mkdir out fs = Inr fs1"
      and "snd (crawl_site (http w) (arg_url a) (arg_depth a) (arg_dataType a) (arg_requestLimit a))
             = Inl e"
  shows "main w a fs =
           \<lparr>raised = Some e, files = fs1,
            sent = [fst (crawl_site (http w) (arg_url a) (arg_depth a) (arg_dataType a) (arg_requestLimit a))]\<rparr>"
  using assms
  by (cases "crawl_site (http w) (arg_url a) (arg_depth a) (arg_dataType a) (arg_requestLimit a)")
     (simp add: main_def)

subsection \<open>The run at the concrete inputs\<close>

lemma example_output_dir:
  "output_dir_of (valid_bracketed_host (example_world h)) (arg_url example_args)
     = Inr (Path [] [''Output'', ''a.com''])"
proof -
  have "output_dir_of any_bracketed_host ''https://a.com/docs?page=2''
          = Inr (Path [] [''Output'', ''a.com''])"
    by code_simp
  then show ?thesis by (simp add: example_world_def example_args_def)
qed

lemma example_mkdir_empty: "mkdir (Path [] [''Output'', ''a.com'']) empty_fs = Inr example_fs"
  by (simp add: mkdir.simps [of "Path [] [''Output'', ''a.com'']" empty_fs]
        mkdir.simps [of "Path [] [''Output'']" empty_fs]
        os_mkdir_def mkdir_no_parents_def has_null_def node_at_def parent_def
        example_fs_def empty_fs_def)

lemma example_is_dir:
  "is_dir example_fs (Path [] [''Output'', ''a.com''])"
  "is_dir stale_fs (Path [] [''Output'', ''a.com''])"
  by (simp_all add: is_dir_def has_null_def node_at_def stale_fs_def example_fs_def empty_fs_def)

lemma example_result:
  "snd (crawl_site (http (example_world http_status_200)) (arg_url example_args)
          (arg_depth example_args) (arg_dataType example_args) (arg_requestLimit example_args))
     = Inr (JObj [(''links'', JArr [JStr (text_of ''https://a.com'')])])"
  "snd (crawl_site (http (example_world http_status_300)) (arg_url example_args)
          (arg_depth example_args) (arg_dataType example_args) (arg_requestLimit example_args))
     = Inr (JObj [(''links'', JArr [JStr (text_of ''https://a.com'')])])"
  "snd (crawl_site (http (example_world http_status_503)) (arg_url example_args)
          (arg_depth example_args) (arg_dataType example_args) (arg_requestLimit example_args))
     = Inl (SystemExit 1)"
  by (simp_all add: crawl_site_def Let_def raise_for_status_def example_world_def
        http_status_200_def http_status_300_def http_status_503_def)

lemma example_md:
  "md_content (py_str (example_world h))
     (JObj [(''links'', JArr [JStr (text_of ''https://a.com'')])]) (arg_dataType example_args)
     = Inr (text_of ''# Resultado do Crawling\<newline>\<newline>## Tipo de dados: links\<newline>\<newline>### Links encontrados:\<newline>\<newline>- [https://a.com](https://a.com)\<newline>'')"
  by (simp add: md_content_def for_each_def dict_get_def format_value_def title_heading_def
        sub_heading_def text_of_def example_args_def)

lemma example_write:
  assumes "is_dir fs (Path [] [''Output'', ''a.com''])"
      and "fs (Path [] [''Output'', ''a.com'', ''crawling_results.md'']) \<noteq> Some Dir"
  shows "write_text (path_div (Path [] [''Output'', ''a.com'']) ''crawling_results.md'')
           (text_of ''# Resultado do Crawling\<newline>\<newline>## Tipo de dados: links\<newline>\<newline>### Links encontrados:\<newline>\<newline>- [https://a.com](https://a.com)\<newline>'') fs
         = (None, fs(Path [] [''Output'', ''a.com'', ''crawling_results.md''] \<mapsto>
             File (text_of ''# Resultado do Crawling\<newline>\<newline>## Tipo de dados: links\<newline>\<newline>### Links encontrados:\<newline>\<newline>- [https://a.com](https://a.com)\<newline>'')))"
  using write_text_in_dir [of fs "Path [] [''Output'', ''a.com'']", OF assms(1) _ utf8_encodable_text_of] assms(2)
  by (simp add: output_file_path)

lemma example_file_absent:
  "example_fs (Path [] [''Output'', ''a.com'', ''crawling_results.md'']) = None"
  "stale_fs (Path [] [''Output'', ''a.com'', ''crawling_results.md'']) = Some (File (text_of ''stale text''))"
  by (simp_all add: stale_fs_def example_fs_def empty_fs_def)

lemma example_request:
  "fst (crawl_site h (arg_url example_args) (arg_depth example_args) (arg_dataType example_args)
          (arg_requestLimit example_args)) =
     Get ''https://api.firecrawl.com/crawl''
       [(''url'', PStr ''https://a.com/docs?page=2''), (''depth'', PInt 1),
        (''dataType'', PStr ''links''), (''limit'', PInt 10)]"
  by (simp add: crawl_site_request firecrawl_api_url_def example_args_def)

lemma example_main_200:
  "main (example_world http_status_200) example_args empty_fs =
     \<lparr>raised = None,
      files = example_fs(Path [] [''Output'', ''a.com'', ''crawling_results.md''] \<mapsto>
        File (text_of ''# Resultado do Crawling\<newline>\<newline>## Tipo de dados: links\<newline>\<newline>### Links encontrados:\<newline>\<newline>- [https://a.com](https://a.com)\<newline>'')),
      sent = [Get ''https://api.firecrawl.com/crawl''
       [(''url'', PStr ''https://a.com/docs?page=2''), (''depth'', PInt 1),
        (''dataType'', PStr ''links''), (''limit'', PInt 10)]]\<rparr>"
  using main_stages [OF example_output_dir example_mkdir_empty example_result(1) example_md
      example_write [OF example_is_dir(1)]]
  by (simp add: example_file_absent example_request)

lemma example_main_300:
  "main (example_world http_status_300) example_args empty_fs =
     \<lparr>raised = None,
      files = example_fs(Path [] [''Output'', ''a.com'', ''crawling_results.md''] \<mapsto>
        File (text_of ''# Resultado do Crawling\<newline>\<newline>## Tipo de dados: links\<newline>\<newline>### Links encontrados:\<newline>\<newline>- [https://a.com](https://a.com)\<newline>'')),
      sent = [Get ''https://api.firecrawl.com/crawl''
       [(''url'', PStr ''https://a.com/docs?page=2''), (''depth'', PInt 1),
        (''dataType'', PStr ''links''), (''limit'', PInt 10)]]\<rparr>"
  using main_stages [OF example_output_dir example_mkdir_empty example_result(2) example_md
      example_write [OF example_is_dir(1)]]
  by (simp add: example_file_absent example_request)

lemma example_main_503:
  "main (example_world http_status_503) example_args empty_fs =
     \<lparr>raised = Some (SystemExit 1), files = example_fs,
      sent = [Get ''https://api.firecrawl.com/crawl''
       [(''url'', PStr ''https://a.com/docs?page=2''), (''depth'', PInt 1),
        (''dataType'', PStr ''links''), (''limit'', PInt 10)]]\<rparr>"
  using main_stages_failed [OF example_output_dir example_mkdir_empty example_result(3)]
  by (simp add: example_request)

lemma example_main_stale:
  "main (example_world http_status_200) example_args stale_fs =
     \<lparr>raised = None,
      files = stale_fs(Path [] [''Output'', ''a.com'', ''crawling_results.md''] \<mapsto>
        File (text_of ''# Resultado do Crawling\<newline>\<newline>## Tipo de dados: links\<newline>\<newline>### Links encontrados:\<newline>\<newline>- [https://a.com](https://a.com)\<newline>'')),
      sent = [Get ''https://api.firecrawl.com/crawl''
       [(''url'', PStr ''https://a.com/docs?page=2''), (''depth'', PInt 1),
        (''dataType'', PStr ''links''), (''limit'', PInt 10)]]\<rparr>"
  using main_stages [OF example_output_dir mkdir_existing [OF example_is_dir(2)] example_result(1)
      example_md example_write [OF example_is_dir(2)]]
  by (simp add: example_file_absent example_request)

text \<open>
  C2. For every URL, every depth of at least 0, every request limit of at least 1 and
  every data type among \<^verbatim>\<open>links\<close>, \<^verbatim>\<open>text\<close>, \<^verbatim>\<open>images\<close>, the request that
  \<^verbatim>\<open>crawl_site\<close> sends is a GET to the fixed address with exactly the four query parameters
  \<^verbatim>\<open>url\<close>, \<^verbatim>\<open>depth\<close>, \<^verbatim>\<open>dataType\<close>, \<^verbatim>\<open>limit\<close>, whose values are the command-line inputs
  (the request limit under the name \<^verbatim>\<open>limit\<close>). A run sends no other request and at most
  this one, and a run that succeeds has sent it.
\<close>

theorem request_carries_cli_inputs:
  assumes "0 \<le> arg_depth a" and "1 \<le> arg_requestLimit a"
      and "arg_dataType a \<in> {''links'', ''text'', ''images''}"
  shows "fst (crawl_site h (arg_url a) (arg_depth a) (arg_dataType a) (arg_requestLimit a)) =
           Get ''https://api.firecrawl.com/crawl''
             [(''url'', PStr (arg_url a)), (''depth'', PInt (arg_depth a)),
              (''dataType'', PStr (arg_dataType a)), (''limit'', PInt (arg_requestLimit a))]
         \<and> (sent (main w a fs) = [] \<or>
            sent (main w a fs) =
              [Get ''https://api.firecrawl.com/crawl''
                 [(''url'', PStr (arg_url a)), (''depth'', PInt (arg_depth a)),
                  (''dataType'', PStr (arg_dataType a)), (''limit'', PInt (arg_requestLimit a))]])
         \<and> (raised (main w a fs) = None \<longrightarrow>
            sent (main w a fs) =
              [Get ''https://api.firecrawl.com/crawl''
                 [(''url'', PStr (arg_url a)), (''depth'', PInt (arg_depth a)),
                  (''dataType'', PStr (arg_dataType a)), (''limit'', PInt (arg_requestLimit a))]])"
proof -
  have req: "fst (crawl_site h' (arg_url a) (arg_depth a) (arg_dataType a) (arg_requestLimit a)) =
           Get ''https://api.firecrawl.com/crawl''
             [(''url'', PStr (arg_url a)), (''depth'', PInt (arg_depth a)),
              (''dataType'', PStr (arg_dataType a)), (''limit'', PInt (arg_requestLimit a))]" for h'
    by (simp add: crawl_site_request firecrawl_api_url_def)
  from main_sent [of w a fs] req [of "http w"]
  have one: "sent (main w a fs) = [] \<or>
            sent (main w a fs) =
              [Get ''https://api.firecrawl.com/crawl''
                 [(''url'', PStr (arg_url a)), (''depth'', PInt (arg_depth a)),
                  (''dataType'', PStr (arg_dataType a)), (''limit'', PInt (arg_requestLimit a))]]"
    by simp
  have "sent (main w a fs) =
              [Get ''https://api.firecrawl.com/crawl''
                 [(''url'', PStr (arg_url a)), (''depth'', PInt (arg_depth a)),
                  (''dataType'', PStr (arg_dataType a)), (''limit'', PInt (arg_requestLimit a))]]"
    if "raised (main w a fs) = None"
    using main_success [OF that] req [of "http w"] by auto
  with req [of h] one show ?thesis by blast
qed

theorem request_carries_cli_inputs_witness:
  "fst (crawl_site http_status_200 ''https://a.com/docs?page=2'' 1 ''links'' 10) =
     Get ''https://api.firecrawl.com/crawl''
       [(''url'', PStr ''https://a.com/docs?page=2''), (''depth'', PInt 1),
        (''dataType'', PStr ''links''), (''limit'', PInt 10)]
   \<and> sent (main (example_world http_status_200) example_args empty_fs) =
     [Get ''https://api.firecrawl.com/crawl''
        [(''url'', PStr ''https://a.com/docs?page=2''), (''depth'', PInt 1),
         (''dataType'', PStr ''links''), (''limit'', PInt 10)]]"
proof -
  have ok: "raised (main (example_world http_status_200) example_args empty_fs) = None"
    by (simp add: example_main_200)
  from request_carries_cli_inputs
    [of example_args http_status_200 "example_world http_status_200" empty_fs] ok
  show ?thesis by (simp add: example_args_def)
qed

text \<open>
  C1 (as the code has it). When \<^verbatim>\<open>requests.get\<close> raises (a transport error or a timeout)
  or the response carries an error status, that is one from 400 to 599, the program ends
  with exit status 1 and writes no file: whatever differs in the file system afterwards
  is a directory that was created.
\<close>

theorem request_failure_exits_1_without_file:
  assumes "http w (Get ''https://api.firecrawl.com/crawl''
              [(''url'', PStr (arg_url a)), (''depth'', PInt (arg_depth a)),
               (''dataType'', PStr (arg_dataType a)), (''limit'', PInt (arg_requestLimit a))])
             = RequestException
           \<or> (\<exists>status_code body.
                http w (Get ''https://api.firecrawl.com/crawl''
                    [(''url'', PStr (arg_url a)), (''depth'', PInt (arg_depth a)),
                     (''dataType'', PStr (arg_dataType a)), (''limit'', PInt (arg_requestLimit a))])
                  = Response status_code body
                \<and> 400 \<le> status_code \<and> status_code < 600)"
  shows "exit_status (raised (main w a fs)) = 1
         \<and> (\<forall>p. files (main w a fs) p \<noteq> fs p \<longrightarrow> fs p = None \<and> files (main w a fs) p = Some Dir)"
proof -
  from assms
  have "snd (crawl_site (http w) (arg_url a) (arg_depth a) (arg_dataType a) (arg_requestLimit a))
          = Inl (SystemExit 1)"
    by (intro crawl_site_failure) (simp add: firecrawl_api_url_def)
  then show ?thesis by (rule main_failure)
qed

theorem request_failure_exits_1_without_file_witness:
  "http_status_503 (Get ''https://api.firecrawl.com/crawl''
      [(''url'', PStr ''https://a.com/docs?page=2''), (''depth'', PInt 1),
       (''dataType'', PStr ''links''), (''limit'', PInt 10)]) = Response 503 None
   \<and> exit_status (raised (main (example_world http_status_503) example_args empty_fs)) = 1
   \<and> files (main (example_world http_status_503) example_args empty_fs)
       (Path [] [''Output'', ''a.com'', ''crawling_results.md'']) = None
   \<and> files (main (example_world http_status_503) example_args empty_fs)
       (Path [] [''Output'', ''a.com'']) = Some Dir"
proof -
  have "http (example_world http_status_503) (Get ''https://api.firecrawl.com/crawl''
              [(''url'', PStr (arg_url example_args)), (''depth'', PInt (arg_depth example_args)),
               (''dataType'', PStr (arg_dataType example_args)),
               (''limit'', PInt (arg_requestLimit example_args))])
          = Response 503 None \<and> (400::nat) \<le> 503 \<and> (503::nat) < 600"
    by (simp add: example_world_def http_status_503_def)
  then have "exit_status (raised (main (example_world http_status_503) example_args empty_fs)) = 1
     \<and> (\<forall>p. files (main (example_world http_status_503) example_args empty_fs) p \<noteq> empty_fs p \<longrightarrow>
            empty_fs p = None
            \<and> files (main (example_world http_status_503) example_args empty_fs) p = Some Dir)"
    by (intro request_failure_exits_1_without_file) blast
  moreover have "files (main (example_world http_status_503) example_args empty_fs)
       (Path [] [''Output'', ''a.com'', ''crawling_results.md'']) = None"
    by (simp add: example_main_503 example_file_absent)
  moreover have "files (main (example_world http_status_503) example_args empty_fs)
       (Path [] [''Output'', ''a.com'']) = Some Dir"
    by (simp add: example_main_503 example_fs_def)
  ultimately show ?thesis by (simp add: http_status_503_def)
qed

text \<open>
  C1 as the specification states it fails for a status that is neither a success nor an
  error status: a response with status 300 (outside 200 to 299) and a JSON body passes
  \<^verbatim>\<open>raise_for_status\<close>, the program ends with exit status 0 and the output file is written.
\<close>

theorem non_success_status_300_writes_file:
  "http_status_300 (Get ''https://api.firecrawl.com/crawl''
      [(''url'', PStr ''https://a.com/docs?page=2''), (''depth'', PInt 1),
       (''dataType'', PStr ''links''), (''limit'', PInt 10)])
     = Response 300 (Some (JObj [(''links'', JArr [JStr (text_of ''https://a.com'')])]))
   \<and> \<not> ((200::nat) \<le> 300 \<and> (300::nat) < 300)
   \<and> exit_status (raised (main (example_world http_status_300) example_args empty_fs)) = 0
   \<and> files (main (example_world http_status_300) example_args empty_fs)
       (Path [] [''Output'', ''a.com'', ''crawling_results.md'']) =
     Some (File (text_of ''# Resultado do Crawling\<newline>\<newline>## Tipo de dados: links\<newline>\<newline>### Links encontrados:\<newline>\<newline>- [https://a.com](https://a.com)\<newline>''))"
  by (simp add: example_main_300 http_status_300_def exit_status_def)

lemma main_success_file:
  assumes "raised (main w a fs) = None"
      and "output_dir_of (valid_bracketed_host w) (arg_url a) = Inr out"
      and "snd (crawl_site (http w) (arg_url a) (arg_depth a) (arg_dataType a) (arg_requestLimit a))
             = Inr result"
      and "md_content (py_str w) result (arg_dataType a) = Inr md"
  shows "files (main w a fs) (path_div out ''crawling_results.md'') = Some (File md)"
proof -
  from main_success [OF assms(1)] assms(2-4) obtain fs1 where
    "write_text (path_div out ''crawling_results.md'') md fs1 = (None, files (main w a fs))"
    by auto
  from write_text_None [OF this] show ?thesis by simp
qed

text \<open>
  C8. A run that succeeds leaves in the output file exactly the rendering of its response,
  whatever the file system held before; so the content does not depend on the earlier
  content of the file, and a second run in the same world (the same URL and arguments,
  the same response) on the file system the first run left changes nothing: it
  overwrites the file with the same content and appends nothing.
\<close>

theorem second_run_overwrites:
  assumes "raised (main w a fs) = None"
  shows "main w a (files (main w a fs)) = main w a fs
         \<and> (\<exists>out result md.
               output_dir_of (valid_bracketed_host w) (arg_url a) = Inr out
             \<and> snd (crawl_site (http w) (arg_url a) (arg_depth a) (arg_dataType a) (arg_requestLimit a))
                 = Inr result
             \<and> md_content (py_str w) result (arg_dataType a) = Inr md
             \<and> files (main w a fs) (path_div out ''crawling_results.md'') = Some (File md)
             \<and> (\<forall>fs'. raised (main w a fs') = None \<longrightarrow>
                    files (main w a fs') (path_div out ''crawling_results.md'') = Some (File md)))"
proof -
  from main_success [OF assms] obtain out fs1 result md where
    out: "output_dir_of (valid_bracketed_host w) (arg_url a) = Inr out"
    and mk: "mkdir out fs = Inr fs1"
    and res: "snd (crawl_site (http w) (arg_url a) (arg_depth a) (arg_dataType a) (arg_requestLimit a))
                = Inr result"
    and md: "md_content (py_str w) result (arg_dataType a) = Inr md"
    and wr: "write_text (path_div out ''crawling_results.md'') md fs1 = (None, files (main w a fs))"
    by blast
  let ?file = "path_div out ''crawling_results.md''"
  let ?fs2 = "files (main w a fs)"
  have fp: "?file = Path (root out) (parts out @ [''crawling_results.md''])"
    by (rule output_file_path)
  then have par: "parent ?file = out" and ne: "?file \<noteq> out" and pf: "parts ?file \<noteq> []"
    by (cases out; simp add: parent_def)+
  from write_text_None [OF wr] par
  have fs2: "?fs2 = fs1(?file \<mapsto> File md)" and nn: "\<not> has_null ?file"
    and enc: "utf8_encodable md"
    by simp_all
  from mkdir_Inr [OF mk] have dir1: "is_dir fs1 out" by simp
  with fs2 ne have dir2: "is_dir ?fs2 out"
    by (auto simp: is_dir_def node_at_def split: if_splits)
  from output_dir_parts [OF out] have po: "parts out \<noteq> []" .
  from dir2 po have mk2: "mkdir out ?fs2 = Inr ?fs2" by (rule mkdir_existing)
  from fs2 have "?fs2 ?file = Some (File md)" by simp
  moreover from dir2 par have "node_at ?fs2 (parent ?file) = Some Dir" by (simp add: is_dir_def)
  ultimately have wr2: "write_text ?file md ?fs2 = (None, ?fs2)"
    using nn pf enc by (intro write_text_again)
  from main_stages [OF out mk res md wr] main_stages [OF out mk2 res md wr2]
  have again: "main w a ?fs2 = main w a fs" by simp
  have "files (main w a fs') ?file = Some (File md)" if "raised (main w a fs') = None" for fs'
    using that out res md by (rule main_success_file)
  with again out res md main_success_file [OF assms out res md] show ?thesis by blast
qed

theorem second_run_overwrites_witness:
  "raised (main (example_world http_status_200) example_args stale_fs) = None
   \<and> stale_fs (Path [] [''Output'', ''a.com'', ''crawling_results.md'']) = Some (File (text_of ''stale text''))
   \<and> files (main (example_world http_status_200) example_args stale_fs)
       (Path [] [''Output'', ''a.com'', ''crawling_results.md'']) =
     Some (File (text_of ''# Resultado do Crawling\<newline>\<newline>## Tipo de dados: links\<newline>\<newline>### Links encontrados:\<newline>\<newline>- [https://a.com](https://a.com)\<newline>''))
   \<and> main (example_world http_status_200) example_args
       (files (main (example_world http_status_200) example_args stale_fs))
     = main (example_world http_status_200) example_args stale_fs"
proof -
  have ok: "raised (main (example_world http_status_200) example_args stale_fs) = None"
    by (simp add: example_main_stale)
  have "files (main (example_world http_status_200) example_args stale_fs)
       (Path [] [''Output'', ''a.com'', ''crawling_results.md'']) =
     Some (File (text_of ''# Resultado do Crawling\<newline>\<newline>## Tipo de dados: links\<newline>\<newline>### Links encontrados:\<newline>\<newline>- [https://a.com](https://a.com)\<newline>''))"
    by (simp add: example_main_stale)
  with ok second_run_overwrites [OF ok] show ?thesis by (simp add: example_file_absent)
qed

section \<open>Properties of the output directory\<close>

lemma split_on_absent: "sep \<notin> set s \<Longrightarrow> split_on sep s = [s]"
  by (induction s) auto

lemma output_dir_of_netloc:
  assumes "urlparse_netloc valid u = Inr d"
  shows "output_dir_of valid u =
           Inr (Path [] (''Output'' # (if d = [] \<or> d = ''.'' then [] else [d])))"
proof -
  from urlparse_netloc_no_slash [OF assms] have ns: "CHR ''/'' \<notin> set d" .
  have "path_of ''Output'' = Path [] [''Output'']"
    by (simp add: path_of_def path_root_def path_parts_def)
  moreover from ns have "path_root d = []" by (rule path_root_relative)
  moreover from ns have "path_parts d = (if d = [] \<or> d = ''.'' then [] else [d])"
    by (simp add: path_parts_def split_on_absent)
  ultimately show ?thesis using assms by (simp add: output_dir_of_def path_div_def)
qed

lemma ascii_letter_not_stripped: "c \<in> set ascii_letters \<Longrightarrow> \<not> c0_control_or_space c"
  by (auto simp: ascii_letters_def c0_control_or_space_def)

lemma scheme_char_kept:
  "c \<in> set scheme_chars \<Longrightarrow> c \<noteq> CHR '':'' \<and> c \<notin> set unsafe_url_bytes_to_remove"
  by (auto simp: scheme_chars_def unsafe_url_bytes_to_remove_def)

lemma delimiter_kept:
  "c \<in> set ''/?#'' \<Longrightarrow> c \<notin> set unsafe_url_bytes_to_remove"
  by (auto simp: unsafe_url_bytes_to_remove_def)

lemma netloc_after_scheme:
  assumes s1: "scheme \<noteq> []" and s2: "hd scheme \<in> set ascii_letters"
      and s3: "list_all (\<lambda>c. c \<in> set scheme_chars) scheme"
      and h: "\<forall>c\<in>set netloc. c \<notin> set ''/?#'' \<and> c \<notin> set unsafe_url_bytes_to_remove"
      and r: "rest = [] \<or> hd rest \<in> set ''/?#''"
  shows "urlparse_netloc valid (scheme @ ''://'' @ netloc @ rest) =
           (if (CHR ''['' \<in> set netloc \<and> CHR '']'' \<notin> set netloc)
               \<or> (CHR '']'' \<in> set netloc \<and> CHR ''['' \<notin> set netloc)
            then Inl ValueError
            else if CHR ''['' \<in> set netloc \<and> CHR '']'' \<in> set netloc
                    \<and> \<not> valid (bracketed_host netloc)
            then Inl ValueError
            else Inr netloc)"
proof -
  let ?safe = "\<lambda>c. c \<notin> set unsafe_url_bytes_to_remove"
  let ?url = "scheme @ ''://'' @ netloc @ rest"
  let ?rest = "filter ?safe rest"
  from s1 s2 have strip: "dropWhile c0_control_or_space ?url = ?url"
    by (cases scheme) (simp_all add: ascii_letter_not_stripped)
  from s3 have sch: "\<forall>c\<in>set scheme. c \<noteq> CHR '':'' \<and> ?safe c"
    by (auto simp: list_all_iff dest: scheme_char_kept)
  then have fs: "filter ?safe scheme = scheme" by (simp add: filter_id_conv)
  from h have fh: "filter ?safe netloc = netloc" by (simp add: filter_id_conv)
  have "?safe (CHR '':'')" and "?safe (CHR ''/'')"
    by (simp_all add: unsafe_url_bytes_to_remove_def)
  then have clean: "filter ?safe ?url = scheme @ ''://'' @ netloc @ ?rest"
    by (simp add: fs fh)
  from r have r': "?rest = [] \<or> hd ?rest \<in> set ''/?#''"
  proof
    assume "rest = []" then show ?thesis by simp
  next
    assume d: "hd rest \<in> set ''/?#''"
    show ?thesis
    proof (cases rest)
      case Nil then show ?thesis by simp
    next
      case (Cons c cs)
      with d delimiter_kept [of c] show ?thesis by auto
    qed
  qed
  from sch have pre: "takeWhile (\<lambda>c. c \<noteq> CHR '':'') (scheme @ ''://'' @ netloc @ ?rest) = scheme"
    by (simp add: takeWhile_append2)
  from s1 have hd: "hd (scheme @ ''://'' @ netloc @ ?rest) = hd scheme" by simp
  from s1 s2 s3 have split: "split_scheme (scheme @ ''://'' @ netloc @ ?rest) = ''//'' @ netloc @ ?rest"
    unfolding split_scheme_def pre hd by (simp add: Let_def)
  from h have "takeWhile (\<lambda>c. c \<notin> set ''/?#'') (netloc @ ?rest) = netloc @ takeWhile (\<lambda>c. c \<notin> set ''/?#'') ?rest"
    by (intro takeWhile_append2) simp
  moreover from r' have "takeWhile (\<lambda>c. c \<notin> set ''/?#'') ?rest = []"
    by (cases ?rest) auto
  ultimately have net: "splitnetloc (''//'' @ netloc @ ?rest) = netloc"
    by (simp add: splitnetloc_def)
  show ?thesis
    unfolding urlparse_netloc_def strip clean split net Let_def by simp
qed

text \<open>
  C5 (as the code has it). The output directory is \<^verbatim>\<open>Output/<netloc>\<close>, where the
  network location is everything between \<^verbatim>\<open>//\<close> and the first \<^verbatim>\<open>/\<close>, \<^verbatim>\<open>?\<close> or
  \<^verbatim>\<open>#\<close> of the URL, as written: user information, host and port (for an empty network
  location, or the network location \<^verbatim>\<open>.\<close>, \<^verbatim>\<open>pathlib\<close> gives \<^verbatim>\<open>Output\<close> itself). Two
  URLs with the same network location yield the same output directory, whatever their
  scheme and whatever path, query or fragment follows the network location.
\<close>

theorem output_dir_from_netloc_only:
  assumes "scheme \<noteq> []" and "hd scheme \<in> set ascii_letters"
      and "list_all (\<lambda>c. c \<in> set scheme_chars) scheme"
      and "scheme' \<noteq> []" and "hd scheme' \<in> set ascii_letters"
      and "list_all (\<lambda>c. c \<in> set scheme_chars) scheme'"
      and "\<forall>c\<in>set netloc. c \<notin> set ''/?#'' \<and> c \<notin> set unsafe_url_bytes_to_remove"
      and "rest = [] \<or> hd rest \<in> set ''/?#''"
      and "rest' = [] \<or> hd rest' \<in> set ''/?#''"
  shows "output_dir_of valid (scheme @ ''://'' @ netloc @ rest)
           = output_dir_of valid (scheme' @ ''://'' @ netloc @ rest')
         \<and> (CHR ''['' \<notin> set netloc \<and> CHR '']'' \<notin> set netloc \<longrightarrow>
              urlparse_netloc valid (scheme @ ''://'' @ netloc @ rest) = Inr netloc
            \<and> output_dir_of valid (scheme @ ''://'' @ netloc @ rest)
                = Inr (Path [] (''Output'' # (if netloc = [] \<or> netloc = ''.'' then [] else [netloc]))))
         \<and> (\<forall>d. urlparse_netloc valid u = Inr d \<longrightarrow>
              output_dir_of valid u
                = Inr (Path [] (''Output'' # (if d = [] \<or> d = ''.'' then [] else [d]))))"
proof -
  from netloc_after_scheme [OF assms(1-3) assms(7,8), of valid]
       netloc_after_scheme [OF assms(4-6) assms(7) assms(9), of valid]
  have same: "urlparse_netloc valid (scheme @ ''://'' @ netloc @ rest)
                = urlparse_netloc valid (scheme' @ ''://'' @ netloc @ rest')"
    by simp
  then have one: "output_dir_of valid (scheme @ ''://'' @ netloc @ rest)
           = output_dir_of valid (scheme' @ ''://'' @ netloc @ rest')"
    by (simp add: output_dir_of_def)
  have two: "urlparse_netloc valid (scheme @ ''://'' @ netloc @ rest) = Inr netloc
            \<and> output_dir_of valid (scheme @ ''://'' @ netloc @ rest)
                = Inr (Path [] (''Output'' # (if netloc = [] \<or> netloc = ''.'' then [] else [netloc])))"
    if "CHR ''['' \<notin> set netloc \<and> CHR '']'' \<notin> set netloc"
  proof -
    from that netloc_after_scheme [OF assms(1-3) assms(7,8), of valid]
    have "urlparse_netloc valid (scheme @ ''://'' @ netloc @ rest) = Inr netloc" by simp
    with output_dir_of_netloc [OF this] show ?thesis by simp
  qed
  from one two output_dir_of_netloc [of valid u] show ?thesis by blast
qed

theorem output_dir_from_netloc_only_witness:
  "output_dir_of any_bracketed_host ''https://user:pw@a.com:8080/docs?page=2''
     = Inr (Path [] [''Output'', ''user:pw@a.com:8080''])
   \<and> output_dir_of any_bracketed_host ''http://user:pw@a.com:8080/blog/post?id=7#top''
     = Inr (Path [] [''Output'', ''user:pw@a.com:8080''])
   \<and> urlparse_netloc any_bracketed_host ''https://user:pw@a.com:8080/docs?page=2''
     = Inr ''user:pw@a.com:8080''"
proof -
  have h: "''https'' \<noteq> []" "hd ''https'' \<in> set ascii_letters"
    "list_all (\<lambda>c. c \<in> set scheme_chars) ''https''"
    "''http'' \<noteq> []" "hd ''http'' \<in> set ascii_letters"
    "list_all (\<lambda>c. c \<in> set scheme_chars) ''http''"
    "\<forall>c\<in>set ''user:pw@a.com:8080''. c \<notin> set ''/?#'' \<and> c \<notin> set unsafe_url_bytes_to_remove"
    "''/docs?page=2'' = [] \<or> hd ''/docs?page=2'' \<in> set ''/?#''"
    "''/blog/post?id=7#top'' = [] \<or> hd ''/blog/post?id=7#top'' \<in> set ''/?#''"
    by (simp_all add: ascii_letters_def scheme_chars_def unsafe_url_bytes_to_remove_def)
  note t = output_dir_from_netloc_only
    [OF h, where valid = any_bracketed_host and u = "''https://user:pw@a.com:8080/docs?page=2''"]
  from t [THEN conjunct1]
  have same: "output_dir_of any_bracketed_host ''https://user:pw@a.com:8080/docs?page=2''
                = output_dir_of any_bracketed_host ''http://user:pw@a.com:8080/blog/post?id=7#top''"
    by simp
  from t [THEN conjunct2, THEN conjunct1]
  have found: "urlparse_netloc any_bracketed_host ''https://user:pw@a.com:8080/docs?page=2''
                 = Inr ''user:pw@a.com:8080''
        \<and> output_dir_of any_bracketed_host ''https://user:pw@a.com:8080/docs?page=2''
                = Inr (Path [] [''Output'', ''user:pw@a.com:8080''])"
    by simp
  from same found
  have "output_dir_of any_bracketed_host ''http://user:pw@a.com:8080/blog/post?id=7#top''
          = Inr (Path [] [''Output'', ''user:pw@a.com:8080''])"
    by simp
  with found show ?thesis by blast
qed

text \<open>
  C5 as the specification states it fails for a URL with user information: the
  directory of \<^verbatim>\<open>https://alice@a.com/docs\<close>, whose host is \<^verbatim>\<open>a.com\<close> and which names no
  port, is \<^verbatim>\<open>Output/alice@a.com\<close> and not \<^verbatim>\<open>Output/a.com\<close>, and it differs from the
  directory of \<^verbatim>\<open>https://a.com/docs\<close>, a URL with the same host, port, path and query.
\<close>

theorem userinfo_changes_output_dir:
  "output_dir_of any_bracketed_host ''https://alice@a.com/docs'' = Inr (Path [] [''Output'', ''alice@a.com''])
   \<and> output_dir_of any_bracketed_host ''https://a.com/docs'' = Inr (Path [] [''Output'', ''a.com''])
   \<and> Path [] [''Output'', ''alice@a.com''] \<noteq> Path [] [''Output'', ''a.com'']"
proof -
  have "output_dir_of any_bracketed_host ''https://alice@a.com/docs'' = Inr (Path [] [''Output'', ''alice@a.com''])"
    by code_simp
  moreover have "output_dir_of any_bracketed_host ''https://a.com/docs'' = Inr (Path [] [''Output'', ''a.com''])"
    by code_simp
  ultimately show ?thesis by simp
qed

end
